theory Spec2Isabelle
  imports Complex_Main
begin

section \<open>JavaScript numbers\<close>

text \<open>
  The numbers of \<^verbatim>\<open>index.js\<close> are JavaScript numbers. They are modelled with their
  special values written out: a finite value, the negative zero, the two infinities and
  NaN. \<open>Fin 0\<close> is the positive zero. Finite arithmetic is exact real arithmetic:
  rounding, overflow and underflow of the 64-bit format are not modelled. The operations
  below give the special values the results the language gives them (\<open>x / 0\<close> is an
  infinity or NaN, never an error).
\<close>

datatype jsnum = Fin real | NegZero | PosInf | NegInf | NaN

fun sign_bit :: "jsnum \<Rightarrow> bool" where
  "sign_bit (Fin r) = (r < 0)"
| "sign_bit NegZero = True"
| "sign_bit PosInf = False"
| "sign_bit NegInf = True"
| "sign_bit NaN = False"

fun is_zero :: "jsnum \<Rightarrow> bool" where
  "is_zero (Fin r) = (r = 0)"
| "is_zero NegZero = True"
| "is_zero PosInf = False"
| "is_zero NegInf = False"
| "is_zero NaN = False"

fun is_inf :: "jsnum \<Rightarrow> bool" where
  "is_inf (Fin r) = False"
| "is_inf NegZero = False"
| "is_inf PosInf = True"
| "is_inf NegInf = True"
| "is_inf NaN = False"

fun real_of :: "jsnum \<Rightarrow> real" where
  "real_of (Fin r) = r"
| "real_of NegZero = 0"
| "real_of PosInf = 0"
| "real_of NegInf = 0"
| "real_of NaN = 0"

definition zero_of :: "bool \<Rightarrow> jsnum" where
  "zero_of s = (if s then NegZero else Fin 0)"

definition inf_of :: "bool \<Rightarrow> jsnum" where
  "inf_of s = (if s then NegInf else PosInf)"

fun js_neg :: "jsnum \<Rightarrow> jsnum" where
  "js_neg (Fin r) = (if r = 0 then NegZero else Fin (- r))"
| "js_neg NegZero = Fin 0"
| "js_neg PosInf = NegInf"
| "js_neg NegInf = PosInf"
| "js_neg NaN = NaN"

definition js_add :: "jsnum \<Rightarrow> jsnum \<Rightarrow> jsnum" where
  "js_add x y =
     (if x = NaN \<or> y = NaN then NaN
      else if is_inf x then (if is_inf y \<and> x \<noteq> y then NaN else x)
      else if is_inf y then y
      else if x = NegZero \<and> y = NegZero then NegZero
      else Fin (real_of x + real_of y))"

definition js_sub :: "jsnum \<Rightarrow> jsnum \<Rightarrow> jsnum" where
  "js_sub x y = js_add x (js_neg y)"

definition js_mul :: "jsnum \<Rightarrow> jsnum \<Rightarrow> jsnum" where
  "js_mul x y =
     (if x = NaN \<or> y = NaN then NaN
      else if (is_inf x \<and> is_zero y) \<or> (is_zero x \<and> is_inf y) then NaN
      else if is_inf x \<or> is_inf y then inf_of (sign_bit x \<noteq> sign_bit y)
      else if is_zero x \<or> is_zero y then zero_of (sign_bit x \<noteq> sign_bit y)
      else Fin (real_of x * real_of y))"

definition js_div :: "jsnum \<Rightarrow> jsnum \<Rightarrow> jsnum" where
  "js_div x y =
     (if x = NaN \<or> y = NaN then NaN
      else if (is_inf x \<and> is_inf y) \<or> (is_zero x \<and> is_zero y) then NaN
      else if is_inf x \<or> is_zero y then inf_of (sign_bit x \<noteq> sign_bit y)
      else if is_inf y \<or> is_zero x then zero_of (sign_bit x \<noteq> sign_bit y)
      else Fin (real_of x / real_of y))"

fun js_sqrt :: "jsnum \<Rightarrow> jsnum" where
  "js_sqrt (Fin r) = (if r < 0 then NaN else Fin (sqrt r))"
| "js_sqrt NegZero = NegZero"
| "js_sqrt PosInf = PosInf"
| "js_sqrt NegInf = NaN"
| "js_sqrt NaN = NaN"

text \<open>The comparison \<^verbatim>\<open>x < y\<close>: false as soon as one side is NaN; the two zeros are equal.\<close>

definition js_lt :: "jsnum \<Rightarrow> jsnum \<Rightarrow> bool" where
  "js_lt x y =
     (if x = NaN \<or> y = NaN then False
      else if x = NegInf then y \<noteq> NegInf
      else if y = PosInf then x \<noteq> PosInf
      else if x = PosInf \<or> y = NegInf then False
      else real_of x < real_of y)"

section \<open>The statistics object\<close>

text \<open>
  The object literal that \<^verbatim>\<open>calculateNearestNeighborStatistics\<close> returns
  (lines 61 to 72 of \<^verbatim>\<open>index.js\<close>): five number-valued fields.
\<close>

record analysis =
  observedMeanDistance :: jsnum
  expectedMeanDistance :: jsnum
  nearestNeighborIndex :: jsnum
  numberOfPoints :: jsnum
  zScore :: jsnum

text \<open>
  The three local variables of \<^verbatim>\<open>calculateNearestNeighborStatistics\<close>, each as the
  source computes it (lines 62 to 64), so that the population density can be named in
  statements. The constant \<^verbatim>\<open>0.26136\<close> is written \<open>26136 / 100000\<close>.
\<close>

definition popDensity :: "jsnum \<Rightarrow> jsnum \<Rightarrow> jsnum" where
  "popDensity n theArea = js_div n theArea"

definition expectedMeanDistance_of :: "jsnum \<Rightarrow> jsnum \<Rightarrow> jsnum" where
  "expectedMeanDistance_of n theArea =
     js_div (Fin 1) (js_mul (Fin 2) (js_sqrt (popDensity n theArea)))"

definition variance :: "jsnum \<Rightarrow> jsnum \<Rightarrow> jsnum" where
  "variance n theArea =
     js_div (Fin (26136 / 100000)) (js_sqrt (js_mul n (popDensity n theArea)))"

definition calculateNearestNeighborStatistics :: "jsnum \<Rightarrow> jsnum \<Rightarrow> jsnum \<Rightarrow> analysis" where
  "calculateNearestNeighborStatistics n observed theArea =
     \<lparr> observedMeanDistance = observed,
       expectedMeanDistance = expectedMeanDistance_of n theArea,
       nearestNeighborIndex = js_div observed (expectedMeanDistance_of n theArea),
       numberOfPoints = n,
       zScore = js_div (js_sub observed (expectedMeanDistance_of n theArea)) (variance n theArea) \<rparr>"

section \<open>Objects, references and the heap\<close>

text \<open>
  A GeoJSON feature is an object with a geometry and a reference to its
  \<^verbatim>\<open>properties\<close> object (\<open>None\<close> when the member is \<^verbatim>\<open>null\<close> or missing).
  Objects live in a heap and are named by references, so that the identity test
  \<^verbatim>\<open>f !== feature\<close> of line 42 and the assignment into
  \<^verbatim>\<open>studyArea.properties\<close> of line 49 act on objects and not on copies.
  The heap is total in both components; \<open>next_ref\<close> is the first reference that has not
  been allocated.
\<close>

type_synonym ref = nat

datatype jsval = VNum jsnum | VStr string | VAnalysis analysis

type_synonym props = "string \<Rightarrow> jsval option"

record 'g feature =
  geometry :: 'g
  properties :: "ref option"

record 'g heap =
  feature_at :: "ref \<Rightarrow> 'g feature"
  props_at :: "ref \<Rightarrow> props"
  next_ref :: ref

definition geometry_at :: "'g heap \<Rightarrow> ref \<Rightarrow> 'g" where
  "geometry_at h r = geometry (feature_at h r)"

text \<open>
  A new feature with an empty properties object, as the helpers of the geometry library
  build one (\<^verbatim>\<open>bboxPolygon\<close> and \<^verbatim>\<open>centroid\<close> both return such an object).
\<close>

definition new_feature :: "'g heap \<Rightarrow> 'g \<Rightarrow> 'g heap \<times> ref" where
  "new_feature h g =
     (let r = next_ref h in
      (h\<lparr> feature_at := (feature_at h)(r := \<lparr> geometry = g, properties = Some r \<rparr>),
          props_at := (props_at h)(r := Map.empty),
          next_ref := Suc r \<rparr>, r))"

section \<open>The geometry library\<close>

text \<open>
  The eight imports of \<^verbatim>\<open>index.js\<close> are packages that are not part of the file. The six
  geometric ones are parameters of the model; they read the geometry of their arguments
  only, and each is a function: the same geometries give the same result.
  \<open>nearestPoint\<close> returns \<open>None\<close> where the package yields no point, as it may for an
  empty candidate collection: \<^verbatim>\<open>distance\<close> then has no second point to measure to and
  the call raises, which the model records as \<open>LibraryError\<close>. Other failures inside the
  library are not modelled, and neither are the objects that the library allocates and
  \<^verbatim>\<open>nearestNeighbor\<close> does not keep (the collection of candidates, the point that
  \<^verbatim>\<open>nearestPoint\<close> returns). \<^verbatim>\<open>featureEach\<close> and \<^verbatim>\<open>featureCollection\<close> are the
  iteration over a list of features and the list itself.
\<close>

record 'g turf =
  bbox :: "'g list \<Rightarrow> jsnum list"
  bboxPolygon :: "jsnum list \<Rightarrow> 'g"
  centroid :: "'g \<Rightarrow> 'g"
  area :: "'g \<Rightarrow> jsnum"
  nearestPoint :: "'g \<Rightarrow> 'g list \<Rightarrow> 'g option"
  distance :: "'g \<Rightarrow> 'g \<Rightarrow> jsnum"

section \<open>nearestNeighbor\<close>

datatype jserror = TypeError | LibraryError

text \<open>
  What \<^verbatim>\<open>options.studyArea\<close> can hold: nothing (or any falsy value), an array of numbers,
  or a reference to a feature.
\<close>

datatype studyArea_value = Absent | BBoxArray "jsnum list" | FeatureRef ref

record nn_options =
  studyArea :: studyArea_value

text \<open>
  Lines 28 to 34: \<^verbatim>\<open>options = options || {}\<close>, then the study area is the option or, when
  that is falsy, the polygon of the dataset's bounding box; an array of length 4 is
  replaced by its polygon. Any other value is kept as it is.
\<close>

definition resolve_studyArea ::
    "'g turf \<Rightarrow> 'g heap \<Rightarrow> ref list \<Rightarrow> nn_options option \<Rightarrow> 'g heap \<times> studyArea_value" where
  "resolve_studyArea lib h dataset options =
     (let opts = (case options of None \<Rightarrow> \<lparr> studyArea = Absent \<rparr> | Some v \<Rightarrow> v);
          (h1, sa) =
            (case studyArea opts of
               Absent \<Rightarrow>
                 (let (h', r) = new_feature h (bboxPolygon lib (bbox lib (map (geometry_at h) dataset)))
                  in (h', FeatureRef r))
             | v \<Rightarrow> (h, v))
      in case sa of
           BBoxArray xs \<Rightarrow>
             if length xs = 4
             then (let (h', r) = new_feature h1 (bboxPolygon lib xs) in (h', FeatureRef r))
             else (h1, sa)
         | _ \<Rightarrow> (h1, sa))"

text \<open>
  Lines 35 to 38: \<^verbatim>\<open>featureEach\<close> visits the features of the dataset in order and pushes
  the centroid of each, a new object, onto \<^verbatim>\<open>features\<close>.
\<close>

fun featureEach_push :: "'g turf \<Rightarrow> 'g heap \<Rightarrow> ref list \<Rightarrow> ref list \<Rightarrow> 'g heap \<times> ref list" where
  "featureEach_push lib h [] features = (h, features)"
| "featureEach_push lib h (f # fs) features =
     (let (h', c) = new_feature h (centroid lib (geometry_at h f))
      in featureEach_push lib h' fs (features @ [c]))"

text \<open>
  Lines 41 to 44, the callback of \<^verbatim>\<open>features.map\<close>: the other features are those that are
  not the very object \<^verbatim>\<open>feature\<close>; the value is the distance to the nearest of them.
\<close>

definition theOtherFeatures :: "ref list \<Rightarrow> ref \<Rightarrow> ref list" where
  "theOtherFeatures features feature = filter (\<lambda>f. f \<noteq> feature) features"

definition nearest_distance :: "'g turf \<Rightarrow> 'g heap \<Rightarrow> ref list \<Rightarrow> ref \<Rightarrow> jserror + jsnum" where
  "nearest_distance lib h features feature =
     (case nearestPoint lib (geometry_at h feature)
             (map (geometry_at h) (theOtherFeatures features feature)) of
        None \<Rightarrow> Inl LibraryError
      | Some p \<Rightarrow> Inr (distance lib (geometry_at h feature) p))"

text \<open>\<^verbatim>\<open>Array.prototype.map\<close> with a callback that may raise: the first error ends the loop.\<close>

fun map_raising :: "('a \<Rightarrow> jserror + 'b) \<Rightarrow> 'a list \<Rightarrow> jserror + 'b list" where
  "map_raising f [] = Inr []"
| "map_raising f (x # xs) =
     (case f x of
        Inl e \<Rightarrow> Inl e
      | Inr y \<Rightarrow> (case map_raising f xs of Inl e \<Rightarrow> Inl e | Inr ys \<Rightarrow> Inr (y # ys)))"

text \<open>Lines 45 to 47: \<^verbatim>\<open>reduce\<close> with the sum, from 0, divided by \<^verbatim>\<open>n\<close>.\<close>

definition mean_of :: "jsnum list \<Rightarrow> jsnum \<Rightarrow> jsnum" where
  "mean_of vals n = js_div (foldl js_add (Fin 0) vals) n"

text \<open>
  Line 49: the assignment \<^verbatim>\<open>studyArea.properties.nearestNeighborAnalysis = ...\<close>. It raises
  when \<^verbatim>\<open>studyArea.properties\<close> is not an object: for an array that was not converted, and
  for a feature whose properties are null. The model records the failure of the statement
  as \<open>TypeError\<close>; nothing is written in that case. The value assigned is the object that
  \<^verbatim>\<open>calculateNearestNeighborStatistics\<close> returns for \<^verbatim>\<open>n\<close>, the observed mean distance
  and \<^verbatim>\<open>area(studyArea) * 0.000001\<close>; the constant is written \<open>1 / 1000000\<close>.
\<close>

definition attach_analysis ::
    "'g turf \<Rightarrow> 'g heap \<Rightarrow> studyArea_value \<Rightarrow> jsnum \<Rightarrow> jsnum \<Rightarrow> jserror + ('g heap \<times> ref)" where
  "attach_analysis lib h sa n observed =
     (case sa of
        FeatureRef r \<Rightarrow>
          (case properties (feature_at h r) of
             None \<Rightarrow> Inl TypeError
           | Some p \<Rightarrow>
               Inr (h\<lparr> props_at := (props_at h)
                        (p := (props_at h p)
                           (''nearestNeighborAnalysis'' \<mapsto>
                              VAnalysis (calculateNearestNeighborStatistics n observed
                                (js_mul (area lib (geometry_at h r)) (Fin (1 / 1000000)))))) \<rparr>, r))
      | _ \<Rightarrow> Inl TypeError)"

text \<open>
  The whole function, lines 26 to 51. It returns the reference held by
  \<^verbatim>\<open>studyArea\<close> and the heap after the call, or the error that was raised.
\<close>

definition nearestNeighbor ::
    "'g turf \<Rightarrow> 'g heap \<Rightarrow> ref list \<Rightarrow> nn_options option \<Rightarrow> jserror + ('g heap \<times> ref)" where
  "nearestNeighbor lib h dataset options =
     (let (h1, sa) = resolve_studyArea lib h dataset options;
          (h2, features) = featureEach_push lib h1 dataset [];
          n = Fin (real (length features))
      in case map_raising (nearest_distance lib h2 features) features of
           Inl e \<Rightarrow> Inl e
         | Inr vals \<Rightarrow> attach_analysis lib h2 sa n (mean_of vals n))"

section \<open>The module and its default export\<close>

text \<open>
  The module scope of \<^verbatim>\<open>index.js\<close> holds the eight imported names (lines 1 to 8) and
  the one function declaration at top level (line 26);
  \<^verbatim>\<open>calculateNearestNeighborStatistics\<close> is declared inside that function and is not in
  the module scope. Line 75 exports, as the default, the value of an identifier.
  Evaluating an identifier that has no binding raises a ReferenceError.
\<close>

datatype module_error = ReferenceError string

definition module_scope :: "string list" where
  "module_scope =
     [''featureEach'', ''featureCollection'', ''bbox'', ''bboxPolygon'', ''centroid'',
      ''area'', ''nearestPoint'', ''distance'', ''nearestNeighbor'']"

definition default_export_identifier :: string where
  "default_export_identifier = ''circle''"

definition evaluate_default_export :: "module_error + string" where
  "evaluate_default_export =
     (if default_export_identifier \<in> set module_scope
      then Inr default_export_identifier
      else Inl (ReferenceError default_export_identifier))"

section \<open>A planar geometry library\<close>

text \<open>
  Modelled from the spec: the external geometry collaborator of section 6
  (\<^verbatim>\<open>boundingBox\<close>, \<^verbatim>\<open>polygonFromBBox\<close>, \<^verbatim>\<open>centroid\<close>, \<^verbatim>\<open>area\<close>,
  \<^verbatim>\<open>planarOrGeodeticDistance\<close>, \<^verbatim>\<open>nearestAmong\<close>), whose packages are imported by
  \<^verbatim>\<open>index.js\<close> and are not among the sources. This is its planar reading, the one of
  the worked example of section 8: coordinates and distances are in kilometres and the
  area is returned in square metres. It serves as the concrete library at which the
  general statements are instantiated.
\<close>

type_synonym position = "jsnum \<times> jsnum"

datatype geometry = Point position | LineString "position list" | Polygon "position list list"

text \<open>The positions of a geometry; with \<open>True\<close> the closing position of each ring is left out.\<close>

fun coords :: "bool \<Rightarrow> geometry \<Rightarrow> position list" where
  "coords w (Point p) = [p]"
| "coords w (LineString ps) = ps"
| "coords w (Polygon rings) = concat (map (\<lambda>ring. if w then butlast ring else ring) rings)"

fun extend_bbox :: "jsnum list \<Rightarrow> position \<Rightarrow> jsnum list" where
  "extend_bbox [west, south, east, north] (x, y) =
     [if js_lt x west then x else west, if js_lt y south then y else south,
      if js_lt east x then x else east, if js_lt north y then y else north]"
| "extend_bbox b p = b"

definition planar_bbox :: "geometry list \<Rightarrow> jsnum list" where
  "planar_bbox gs = foldl extend_bbox [PosInf, PosInf, NegInf, NegInf] (concat (map (coords False) gs))"

definition number_at :: "jsnum list \<Rightarrow> nat \<Rightarrow> jsnum" where
  "number_at xs i = (if i < length xs then xs ! i else NaN)"

definition planar_bboxPolygon :: "jsnum list \<Rightarrow> geometry" where
  "planar_bboxPolygon b =
     (let west = number_at b 0; south = number_at b 1; east = number_at b 2; north = number_at b 3
      in Polygon [[(west, south), (east, south), (east, north), (west, north), (west, south)]])"

definition planar_centroid :: "geometry \<Rightarrow> geometry" where
  "planar_centroid g =
     (let ps = coords True g; len = Fin (real (length ps))
      in Point (js_div (foldl js_add (Fin 0) (map fst ps)) len,
                js_div (foldl js_add (Fin 0) (map snd ps)) len))"

fun shoelace :: "position list \<Rightarrow> jsnum" where
  "shoelace ((x1, y1) # (x2, y2) # ps) =
     js_add (js_sub (js_mul x1 y2) (js_mul x2 y1)) (shoelace ((x2, y2) # ps))"
| "shoelace ps = Fin 0"

fun js_abs :: "jsnum \<Rightarrow> jsnum" where
  "js_abs (Fin r) = Fin \<bar>r\<bar>"
| "js_abs NegZero = Fin 0"
| "js_abs PosInf = PosInf"
| "js_abs NegInf = PosInf"
| "js_abs NaN = NaN"

fun planar_area :: "geometry \<Rightarrow> jsnum" where
  "planar_area (Polygon (ring # holes)) =
     js_mul (js_div (js_abs (shoelace ring)) (Fin 2)) (Fin 1000000)"
| "planar_area g = Fin 0"

fun planar_distance :: "geometry \<Rightarrow> geometry \<Rightarrow> jsnum" where
  "planar_distance (Point (x1, y1)) (Point (x2, y2)) =
     js_sqrt (js_add (js_mul (js_sub x1 x2) (js_sub x1 x2)) (js_mul (js_sub y1 y2) (js_sub y1 y2)))"
| "planar_distance g1 g2 = NaN"

text \<open>
  The nearest of the candidates: a scan that keeps the first candidate at the least
  distance seen so far, and \<open>None\<close> when no candidate was nearer than infinity.
\<close>

fun nearest_scan :: "geometry \<Rightarrow> geometry list \<Rightarrow> geometry option \<Rightarrow> jsnum \<Rightarrow> geometry option" where
  "nearest_scan target [] nearest minDist = nearest"
| "nearest_scan target (pt # pts) nearest minDist =
     (if js_lt (planar_distance target pt) minDist
      then nearest_scan target pts (Some pt) (planar_distance target pt)
      else nearest_scan target pts nearest minDist)"

definition planar_nearestPoint :: "geometry \<Rightarrow> geometry list \<Rightarrow> geometry option" where
  "planar_nearestPoint target points = nearest_scan target points None PosInf"

definition planar :: "geometry turf" where
  "planar =
     \<lparr> bbox = planar_bbox, bboxPolygon = planar_bboxPolygon, centroid = planar_centroid,
       area = planar_area, nearestPoint = planar_nearestPoint, distance = planar_distance \<rparr>"

text \<open>A heap that holds the given geometries as features 0, 1, ..., each with empty properties.\<close>

definition heap_of :: "'g \<Rightarrow> 'g list \<Rightarrow> 'g heap" where
  "heap_of d gs =
     \<lparr> feature_at = (\<lambda>r. \<lparr> geometry = (if r < length gs then gs ! r else d), properties = Some r \<rparr>),
       props_at = (\<lambda>r. Map.empty),
       next_ref = length gs \<rparr>"

section \<open>What the caller observes\<close>

text \<open>
  The value of \<^verbatim>\<open>result.properties.nearestNeighborAnalysis\<close> for a feature of the heap,
  and the outcome of a call as the caller sees it: the error, or the returned reference
  with the analysis attached to it.
\<close>

definition analysis_of :: "'g heap \<Rightarrow> ref \<Rightarrow> jsval option" where
  "analysis_of h r =
     (case properties (feature_at h r) of
        None \<Rightarrow> None
      | Some p \<Rightarrow> props_at h p ''nearestNeighborAnalysis'')"

definition outcome :: "jserror + ('g heap \<times> ref) \<Rightarrow> jserror + (ref \<times> jsval option)" where
  "outcome res = (case res of Inl e \<Rightarrow> Inl e | Inr (h, r) \<Rightarrow> Inr (r, analysis_of h r))"

text \<open>
  The references a call is given are references to objects that exist: the features of
  the dataset, the study area when it is a feature, and its properties object.
\<close>

definition allocated_input :: "'g heap \<Rightarrow> ref list \<Rightarrow> nn_options option \<Rightarrow> bool" where
  "allocated_input h dataset options =
     (list_all (\<lambda>f. f < next_ref h) dataset \<and>
      (case options of
         None \<Rightarrow> True
       | Some v \<Rightarrow>
           (case studyArea v of
              FeatureRef r \<Rightarrow>
                r < next_ref h \<and>
                (case properties (feature_at h r) of None \<Rightarrow> True | Some p \<Rightarrow> p < next_ref h)
            | _ \<Rightarrow> True)))"

text \<open>
  The statistics that the analysis of an empty dataset attaches: a count of 0 and NaN for
  the observed mean distance, the index and the z-score.
\<close>

definition empty_result :: "'g heap \<Rightarrow> ref \<Rightarrow> bool" where
  "empty_result h r =
     (\<exists>a. analysis_of h r = Some (VAnalysis a) \<and>
          observedMeanDistance a = NaN \<and> nearestNeighborIndex a = NaN \<and> zScore a = NaN \<and>
          numberOfPoints a = Fin 0)"

section \<open>The formulas of the specification\<close>

text \<open>
  The closed-form Clark-Evans formulas as section 4.4 of the specification writes them, in
  its order, for a point count \<open>n\<close>, an observed mean distance and an area in square
  kilometres. They are evaluated with the operations of JavaScript numbers, as the code
  evaluates its own expressions, and are compared with what the source computes.
\<close>

definition spec_popDensity :: "jsnum \<Rightarrow> jsnum \<Rightarrow> jsnum" where
  "spec_popDensity n areaSqKm = js_div n areaSqKm"

definition spec_expectedMeanDistance :: "jsnum \<Rightarrow> jsnum \<Rightarrow> jsnum" where
  "spec_expectedMeanDistance n areaSqKm =
     js_div (Fin 1) (js_mul (Fin 2) (js_sqrt (spec_popDensity n areaSqKm)))"

definition spec_variance :: "jsnum \<Rightarrow> jsnum \<Rightarrow> jsnum" where
  "spec_variance n areaSqKm =
     js_div (Fin (26136 / 100000)) (js_sqrt (js_mul n (spec_popDensity n areaSqKm)))"

definition spec_nearestNeighborIndex :: "jsnum \<Rightarrow> jsnum \<Rightarrow> jsnum \<Rightarrow> jsnum" where
  "spec_nearestNeighborIndex n observed areaSqKm =
     js_div observed (spec_expectedMeanDistance n areaSqKm)"

definition spec_zScore :: "jsnum \<Rightarrow> jsnum \<Rightarrow> jsnum \<Rightarrow> jsnum" where
  "spec_zScore n observed areaSqKm =
     js_div (js_sub observed (spec_expectedMeanDistance n areaSqKm)) (spec_variance n areaSqKm)"

section \<open>The computation on geometries alone\<close>

text \<open>
  The search of section 4.3 of the specification with the heap taken away: the centroids
  as a list of geometries, and for the point at position \<open>i\<close> the candidates
  \<open>p\<^sub>j\<close> with \<open>j \<noteq> i\<close>, that is the list without position \<open>i\<close>, whatever the
  coordinates are. The lemmas below show that \<open>nearestNeighbor\<close> computes exactly this.
\<close>

definition centroids_of :: "'g turf \<Rightarrow> 'g heap \<Rightarrow> ref list \<Rightarrow> 'g list" where
  "centroids_of lib h dataset = map (\<lambda>f. centroid lib (geometry_at h f)) dataset"

definition candidates :: "'g list \<Rightarrow> nat \<Rightarrow> 'g list" where
  "candidates cs i = take i cs @ drop (Suc i) cs"

definition distance_at :: "'g turf \<Rightarrow> 'g list \<Rightarrow> nat \<Rightarrow> jserror + jsnum" where
  "distance_at lib cs i =
     (case nearestPoint lib (cs ! i) (candidates cs i) of
        None \<Rightarrow> Inl LibraryError
      | Some p \<Rightarrow> Inr (distance lib (cs ! i) p))"

definition distances :: "'g turf \<Rightarrow> 'g list \<Rightarrow> jserror + jsnum list" where
  "distances lib cs = map_raising (distance_at lib cs) [0..<length cs]"

definition study_geometry :: "'g turf \<Rightarrow> 'g heap \<Rightarrow> ref list \<Rightarrow> nn_options option \<Rightarrow> 'g option" where
  "study_geometry lib h dataset options =
     (case (case options of None \<Rightarrow> Absent | Some v \<Rightarrow> studyArea v) of
        Absent \<Rightarrow> Some (bboxPolygon lib (bbox lib (map (geometry_at h) dataset)))
      | BBoxArray xs \<Rightarrow> if length xs = 4 then Some (bboxPolygon lib xs) else None
      | FeatureRef r \<Rightarrow>
          (case properties (feature_at h r) of None \<Rightarrow> None | Some p \<Rightarrow> Some (geometry_at h r)))"

definition analysis_on :: "'g turf \<Rightarrow> 'g heap \<Rightarrow> ref list \<Rightarrow> nn_options option \<Rightarrow> jserror + analysis" where
  "analysis_on lib h dataset options =
     (case distances lib (centroids_of lib h dataset) of
        Inl e \<Rightarrow> Inl e
      | Inr vals \<Rightarrow>
          (case study_geometry lib h dataset options of
             None \<Rightarrow> Inl TypeError
           | Some g \<Rightarrow>
               Inr (calculateNearestNeighborStatistics (Fin (real (length dataset)))
                      (mean_of vals (Fin (real (length dataset))))
                      (js_mul (area lib g) (Fin (1 / 1000000))))))"

text \<open>
  Three more devices of the proofs: the heap just before line 49, the reference that a
  returning call returns, the properties object it writes to, and the write itself.
\<close>

definition heap_before :: "'g turf \<Rightarrow> 'g heap \<Rightarrow> ref list \<Rightarrow> nn_options option \<Rightarrow> 'g heap" where
  "heap_before lib h ds options =
     fst (featureEach_push lib (fst (resolve_studyArea lib h ds options)) ds [])"

definition study_ref :: "'g heap \<Rightarrow> nn_options option \<Rightarrow> ref" where
  "study_ref h options =
     (case options of
        None \<Rightarrow> next_ref h
      | Some v \<Rightarrow> (case studyArea v of FeatureRef r \<Rightarrow> r | _ \<Rightarrow> next_ref h))"

definition study_props :: "'g heap \<Rightarrow> nn_options option \<Rightarrow> ref" where
  "study_props h options =
     (case properties (feature_at h (study_ref h options)) of
        Some p \<Rightarrow> if study_ref h options < next_ref h then p else next_ref h
      | None \<Rightarrow> next_ref h)"

definition attach :: "'g heap \<Rightarrow> ref \<Rightarrow> analysis \<Rightarrow> 'g heap" where
  "attach h p a =
     h\<lparr> props_at := (props_at h)(p := (props_at h p)(''nearestNeighborAnalysis'' \<mapsto> VAnalysis a)) \<rparr>"

section \<open>Concrete inputs\<close>

text \<open>
  A dataset with one feature of each kind of geometry: a point, a line and a polygon.
  Their centroids are \<open>(0, 0)\<close>, \<open>(1, 0)\<close> and \<open>(1, 1)\<close>.
\<close>

definition mixed_features :: "geometry list" where
  "mixed_features =
     [Point (Fin 0, Fin 0),
      LineString [(Fin 0, Fin 0), (Fin 2, Fin 0)],
      Polygon [[(Fin 0, Fin 0), (Fin 2, Fin 0), (Fin 2, Fin 2), (Fin 0, Fin 2), (Fin 0, Fin 0)]]]"

text \<open>
  Two point features at \<open>(0, 0)\<close> and \<open>(3, 4)\<close> and a square polygon that already carries
  two properties, one of them under the key the function writes to.
\<close>

definition park_heap :: "geometry heap" where
  "park_heap =
     (heap_of (Point (Fin 0, Fin 0))
        [Point (Fin 0, Fin 0), Point (Fin 3, Fin 4),
         Polygon [[(Fin 0, Fin 0), (Fin 4, Fin 0), (Fin 4, Fin 4), (Fin 0, Fin 4), (Fin 0, Fin 0)]]])
     \<lparr> props_at := (\<lambda>r. Map.empty)
         (2 := [''name'' \<mapsto> VStr ''park'', ''nearestNeighborAnalysis'' \<mapsto> VStr ''stale'']) \<rparr>"

definition park_options :: "nn_options option" where
  "park_options = Some \<lparr> studyArea = FeatureRef 2 \<rparr>"

text \<open>Two points on a vertical line: their bounding box has no area.\<close>

definition vertical_points :: "geometry list" where
  "vertical_points = [Point (Fin 0, Fin 0), Point (Fin 0, Fin 1)]"

text \<open>
  Three point features of which the first two lie on the same spot, and the four corners
  of the unit square of the worked example of section 8 of the specification.
\<close>

definition twin_points :: "geometry list" where
  "twin_points = [Point (Fin 0, Fin 0), Point (Fin 0, Fin 0), Point (Fin 3, Fin 4)]"

definition unit_square_points :: "geometry list" where
  "unit_square_points =
     [Point (Fin 0, Fin 0), Point (Fin 0, Fin 1), Point (Fin 1, Fin 0), Point (Fin 1, Fin 1)]"

text \<open>
  Modelled from the spec: what sections 4.3 and 6 ask of the two absent primitives
  \<^verbatim>\<open>nearestAmong\<close> and \<^verbatim>\<open>planarOrGeodeticDistance\<close>. The point returned is one of the
  candidates, at a distance that is a number, and no candidate is nearer; a point is found
  as soon as one candidate is at a finite distance; a distance is never negative.
\<close>

definition nearest_contract :: "'g turf \<Rightarrow> bool" where
  "nearest_contract lib =
     ((\<forall>p cs q. nearestPoint lib p cs = Some q \<longrightarrow>
         q \<in> set cs \<and> distance lib p q \<noteq> NaN \<and>
         (\<forall>x\<in>set cs. \<not> js_lt (distance lib p x) (distance lib p q))) \<and>
      (\<forall>p cs. (\<exists>x\<in>set cs. js_lt (distance lib p x) PosInf) \<longrightarrow> nearestPoint lib p cs \<noteq> None) \<and>
      (\<forall>p q. distance lib p q = NaN \<or> distance lib p q = PosInf \<or>
         (\<exists>d\<ge>0. distance lib p q = Fin d)))"

text \<open>What a distance can be: NaN, infinity, or a finite number that is not negative.\<close>

definition distance_value :: "jsnum \<Rightarrow> bool" where
  "distance_value x = (x = NaN \<or> x = PosInf \<or> (\<exists>d\<ge>0. x = Fin d))"

section \<open>Arithmetic of finite numbers\<close>

lemma js_add_Fin [simp]: "js_add (Fin a) (Fin b) = Fin (a + b)"
  by (simp add: js_add_def)
lemma js_sub_Fin [simp]: "js_sub (Fin a) (Fin b) = Fin (a - b)"
  by (simp add: js_sub_def js_add_def)
lemma js_mul_Fin [simp]: "js_mul (Fin a) (Fin b) = (if a = 0 \<or> b = 0 then zero_of ((a < 0) \<noteq> (b < 0)) else Fin (a * b))"
  by (simp add: js_mul_def)
lemma js_div_Fin [simp]: "js_div (Fin a) (Fin b) = (if a = 0 \<and> b = 0 then NaN else if b = 0 then inf_of (a < 0) else if a = 0 then zero_of (b < 0) else Fin (a / b))"
  by (simp add: js_div_def)

section \<open>The loop of centroids and the heap\<close>

lemma new_feature_simps [simp]:
  "snd (new_feature h g) = next_ref h"
  "next_ref (fst (new_feature h g)) = Suc (next_ref h)"
  "feature_at (fst (new_feature h g)) = (feature_at h)(next_ref h := \<lparr> geometry = g, properties = Some (next_ref h) \<rparr>)"
  "props_at (fst (new_feature h g)) = (props_at h)(next_ref h := Map.empty)"
  by (simp_all add: new_feature_def Let_def)

lemma featureEach_push_snd:
  "snd (featureEach_push lib h ds acc) = acc @ [next_ref h ..< next_ref h + length ds]"
proof (induction ds arbitrary: h acc)
  case Nil
  show ?case by simp
next
  case (Cons f fs)
  have "[next_ref h..<next_ref h + length (f # fs)] = next_ref h # [Suc (next_ref h)..<Suc (next_ref h) + length fs]"
    using upt_conv_Cons [of "next_ref h" "next_ref h + length (f # fs)"] by simp
  then show ?case
    using Cons.IH [of "fst (new_feature h (centroid lib (geometry_at h f)))" "acc @ [next_ref h]"]
    by (simp add: split_beta del: upt_Suc)
qed

lemma featureEach_push_next:
  "next_ref (fst (featureEach_push lib h ds acc)) = next_ref h + length ds"
  by (induction ds arbitrary: h acc) (simp_all add: split_beta)

lemma featureEach_push_old:
  "r < next_ref h \<Longrightarrow>
     feature_at (fst (featureEach_push lib h ds acc)) r = feature_at h r \<and>
     props_at (fst (featureEach_push lib h ds acc)) r = props_at h r"
  by (induction ds arbitrary: h acc) (simp_all add: split_beta)

lemma featureEach_push_new:
  "list_all (\<lambda>f. f < next_ref h) ds \<Longrightarrow> i < length ds \<Longrightarrow>
     feature_at (fst (featureEach_push lib h ds acc)) (next_ref h + i) =
       \<lparr> geometry = centroid lib (geometry_at h (ds ! i)), properties = Some (next_ref h + i) \<rparr>"
proof (induction ds arbitrary: h acc i)
  case Nil
  then show ?case by simp
next
  case (Cons f fs)
  let ?h = "fst (new_feature h (centroid lib (geometry_at h f)))"
  show ?case
  proof (cases i)
    case 0
    have "feature_at (fst (featureEach_push lib ?h fs (acc @ [next_ref h]))) (next_ref h) =
            feature_at ?h (next_ref h)"
      using featureEach_push_old [of "next_ref h" ?h lib fs] by simp
    then show ?thesis using 0 by (simp add: split_beta)
  next
    case (Suc j)
    have all: "list_all (\<lambda>f. f < next_ref ?h) fs"
      using Cons.prems(1) by (simp add: list_all_iff less_Suc_eq)
    have j: "j < length fs" using Cons.prems(2) Suc by simp
    have "fs ! j < next_ref h" using Cons.prems(1) j by (simp add: list_all_iff)
    then have "geometry_at ?h (fs ! j) = geometry_at h (fs ! j)"
      by (simp add: geometry_at_def)
    then show ?thesis
      using Cons.IH [OF all j, of "acc @ [next_ref h]"] Suc by (simp add: split_beta)
  qed
qed

section \<open>The candidates of a point\<close>

lemma theOtherFeatures_upt:
  assumes "i < n"
  shows "theOtherFeatures [k..<k + n] (k + i) = [k..<k + i] @ [Suc (k + i)..<k + n]"
proof -
  have split: "[k..<k + n] = [k..<k + i] @ (k + i) # [Suc (k + i)..<k + n]"
    using assms upt_add_eq_append [of k "k + i" "n - i"] upt_conv_Cons [of "k + i" "k + n"]
    by simp
  have a: "filter (\<lambda>f. f \<noteq> k + i) [k..<k + i] = [k..<k + i]"
    by (rule filter_True) simp
  have b: "filter (\<lambda>f. f \<noteq> k + i) [Suc (k + i)..<k + n] = [Suc (k + i)..<k + n]"
    by (rule filter_True) simp
  show ?thesis
    unfolding theOtherFeatures_def by (subst split) (simp only: filter_append filter.simps a b, simp)
qed

lemma candidates_map_upt:
  assumes "i < n"
  shows "map g ([k..<k + i] @ [Suc (k + i)..<k + n]) = candidates (map g [k..<k + n]) i"
proof -
  have t: "take i [k..<k + n] = [k..<k + i]"
    using assms by (simp add: take_upt)
  have d: "drop (Suc i) [k..<k + n] = [Suc (k + i)..<k + n]"
    by (simp add: drop_upt)
  show ?thesis
    unfolding candidates_def take_map drop_map t d by simp
qed

lemma nearest_distance_upt:
  assumes "i < n"
  shows "nearest_distance lib h [k..<k + n] (k + i) = distance_at lib (map (geometry_at h) [k..<k + n]) i"
proof -
  have "map (geometry_at h) [k..<k + n] ! i = geometry_at h (k + i)"
    using assms by simp
  then show ?thesis
    by (simp only: nearest_distance_def distance_at_def theOtherFeatures_upt [OF assms]
        candidates_map_upt [OF assms, symmetric])
qed

lemma map_raising_cong:
  "(\<And>x. x \<in> set xs \<Longrightarrow> f x = g x) \<Longrightarrow> map_raising f xs = map_raising g xs"
  by (induction xs) (simp_all cong: sum.case_cong)

lemma map_raising_map: "map_raising f (map g xs) = map_raising (\<lambda>x. f (g x)) xs"
  by (induction xs) (simp_all cong: sum.case_cong)

lemma map_raising_length: "map_raising f xs = Inr ys \<Longrightarrow> length ys = length xs"
  by (induction xs arbitrary: ys) (auto split: sum.splits)

lemma map_raising_nth:
  "map_raising f xs = Inr ys \<Longrightarrow> i < length xs \<Longrightarrow> f (xs ! i) = Inr (ys ! i)"
proof (induction xs arbitrary: ys i)
  case Nil
  then show ?case by simp
next
  case (Cons x xs)
  then show ?case by (cases i) (auto split: sum.splits)
qed

lemma map_raising_upt_distances:
  "map_raising (nearest_distance lib h [k..<k + n]) [k..<k + n] =
     distances lib (map (geometry_at h) [k..<k + n])"
proof -
  have "[k..<k + n] = map (\<lambda>i. k + i) [0..<n]"
    using map_add_upt [of k n] by (simp add: add.commute)
  then have "map_raising (nearest_distance lib h [k..<k + n]) [k..<k + n] =
      map_raising (\<lambda>i. nearest_distance lib h [k..<k + n] (k + i)) [0..<n]"
    using map_raising_map [of "nearest_distance lib h [k..<k + n]" "\<lambda>i. k + i" "[0..<n]"] by simp
  also have "\<dots> = map_raising (distance_at lib (map (geometry_at h) [k..<k + n])) [0..<n]"
    by (rule map_raising_cong) (simp add: nearest_distance_upt)
  finally show ?thesis by (simp add: distances_def)
qed

section \<open>The study area\<close>

lemma resolve_None:
  "resolve_studyArea lib h ds None =
     (fst (new_feature h (bboxPolygon lib (bbox lib (map (geometry_at h) ds)))), FeatureRef (next_ref h))"
  by (simp add: resolve_studyArea_def split_beta)

lemma resolve_Absent:
  "studyArea v = Absent \<Longrightarrow> resolve_studyArea lib h ds (Some v) =
     (fst (new_feature h (bboxPolygon lib (bbox lib (map (geometry_at h) ds)))), FeatureRef (next_ref h))"
  by (simp add: resolve_studyArea_def split_beta)

lemma resolve_BBoxArray:
  "studyArea v = BBoxArray xs \<Longrightarrow> length xs = 4 \<Longrightarrow> resolve_studyArea lib h ds (Some v) =
     (fst (new_feature h (bboxPolygon lib xs)), FeatureRef (next_ref h))"
  by (simp add: resolve_studyArea_def split_beta)

lemma resolve_other_array:
  "studyArea v = BBoxArray xs \<Longrightarrow> length xs \<noteq> 4 \<Longrightarrow>
     resolve_studyArea lib h ds (Some v) = (h, BBoxArray xs)"
  by (simp add: resolve_studyArea_def split_beta)

lemma resolve_FeatureRef:
  "studyArea v = FeatureRef r \<Longrightarrow> resolve_studyArea lib h ds (Some v) = (h, FeatureRef r)"
  by (simp add: resolve_studyArea_def split_beta)

lemma resolve_shape:
  "(\<exists>g. resolve_studyArea lib h ds options = (fst (new_feature h g), FeatureRef (next_ref h))) \<or>
   (\<exists>sa. resolve_studyArea lib h ds options = (h, sa))"
proof (cases options)
  case None
  then show ?thesis using resolve_None [of lib h ds] by blast
next
  case (Some v)
  show ?thesis
  proof (cases "studyArea v")
    case Absent
    then show ?thesis using Some resolve_Absent [of v lib h ds] by blast
  next
    case (BBoxArray xs)
    then show ?thesis
      using Some resolve_BBoxArray [of v xs lib h ds] resolve_other_array [of v xs lib h ds]
      by (cases "length xs = 4") blast+
  next
    case (FeatureRef r)
    then show ?thesis using Some by (simp add: resolve_FeatureRef)
  qed
qed

lemma resolve_next: "next_ref h \<le> next_ref (fst (resolve_studyArea lib h ds options))"
  using resolve_shape [of lib h ds options] by auto

lemma resolve_old:
  "r < next_ref h \<Longrightarrow>
     feature_at (fst (resolve_studyArea lib h ds options)) r = feature_at h r \<and>
     props_at (fst (resolve_studyArea lib h ds options)) r = props_at h r"
  using resolve_shape [of lib h ds options] by auto

lemma heap_before_next: "next_ref h \<le> next_ref (heap_before lib h ds options)"
  using resolve_next [of h lib ds options]
  by (simp add: heap_before_def featureEach_push_next)

lemma heap_before_old:
  assumes "r < next_ref h"
  shows "feature_at (heap_before lib h ds options) r = feature_at h r \<and>
         props_at (heap_before lib h ds options) r = props_at h r"
proof -
  have "r < next_ref (fst (resolve_studyArea lib h ds options))"
    using assms resolve_next [of h lib ds options] by simp
  then show ?thesis
    using resolve_old [OF assms, of lib ds options]
    by (simp add: heap_before_def featureEach_push_old)
qed

lemma nearestNeighbor_eq:
  assumes "list_all (\<lambda>f. f < next_ref h) ds"
  shows "nearestNeighbor lib h ds options =
     (case distances lib (centroids_of lib h ds) of
        Inl e \<Rightarrow> Inl e
      | Inr values \<Rightarrow>
          attach_analysis lib (heap_before lib h ds options)
            (snd (resolve_studyArea lib h ds options))
            (Fin (real (length ds))) (mean_of values (Fin (real (length ds)))))"
proof -
  let ?h1 = "fst (resolve_studyArea lib h ds options)"
  let ?h2 = "heap_before lib h ds options"
  let ?k = "next_ref ?h1"
  let ?n = "length ds"
  have features: "snd (featureEach_push lib ?h1 ds []) = [?k..<?k + ?n]"
    by (simp add: featureEach_push_snd)
  have all1: "list_all (\<lambda>f. f < ?k) ds"
    using assms resolve_next [of h lib ds options] by (auto simp: list_all_iff)
  have "map (geometry_at ?h2) [?k..<?k + ?n] = centroids_of lib h ds"
  proof (rule nth_equalityI)
    show "length (map (geometry_at ?h2) [?k..<?k + ?n]) = length (centroids_of lib h ds)"
      by (simp add: centroids_of_def)
  next
    fix i assume "i < length (map (geometry_at ?h2) [?k..<?k + ?n])"
    then have i: "i < ?n" by simp
    have "ds ! i < next_ref h" using assms i by (simp add: list_all_iff)
    then have "geometry_at ?h1 (ds ! i) = geometry_at h (ds ! i)"
      using resolve_old [of "ds ! i" h lib ds options] by (simp add: geometry_at_def)
    then show "map (geometry_at ?h2) [?k..<?k + ?n] ! i = centroids_of lib h ds ! i"
      using i featureEach_push_new [OF all1 i, of lib "[]"]
      by (simp add: centroids_of_def geometry_at_def heap_before_def)
  qed
  then have "map_raising (nearest_distance lib ?h2 [?k..<?k + ?n]) [?k..<?k + ?n] =
      distances lib (centroids_of lib h ds)"
    using map_raising_upt_distances [of lib ?h2 ?k ?n] by simp
  then show ?thesis
    using features
    by (simp add: nearestNeighbor_def split_beta Let_def heap_before_def del: upt_Suc
        cong: sum.case_cong)
qed

lemma heap_before_fresh:
  assumes "resolve_studyArea lib h ds options = (fst (new_feature h g), FeatureRef (next_ref h))"
  shows "feature_at (heap_before lib h ds options) (next_ref h) =
           \<lparr> geometry = g, properties = Some (next_ref h) \<rparr>"
  using featureEach_push_old [of "next_ref h" "fst (new_feature h g)" lib ds "[]"] assms
  by (simp add: heap_before_def)

lemma attach_fresh:
  assumes "resolve_studyArea lib h ds options = (fst (new_feature h g), FeatureRef (next_ref h))"
  shows "attach_analysis lib (heap_before lib h ds options) (snd (resolve_studyArea lib h ds options)) n obs =
     Inr (attach (heap_before lib h ds options) (next_ref h)
            (calculateNearestNeighborStatistics n obs (js_mul (area lib g) (Fin (1 / 1000000)))),
          next_ref h)"
  using heap_before_fresh [OF assms] assms
  by (simp add: attach_analysis_def attach_def geometry_at_def)

lemma attach_eq:
  assumes "allocated_input h ds options"
  shows "attach_analysis lib (heap_before lib h ds options) (snd (resolve_studyArea lib h ds options)) n obs =
     (case study_geometry lib h ds options of
        None \<Rightarrow> Inl TypeError
      | Some g \<Rightarrow>
          Inr (attach (heap_before lib h ds options) (study_props h options)
                 (calculateNearestNeighborStatistics n obs (js_mul (area lib g) (Fin (1 / 1000000)))),
               study_ref h options))"
proof -
  have fresh: "study_props h options = next_ref h" if "study_ref h options = next_ref h"
    using that by (simp add: study_props_def split: option.splits)
  show ?thesis
  proof (cases options)
    case None
    then show ?thesis
      using attach_fresh [OF resolve_None, of lib h ds n obs] fresh
      by (simp add: study_geometry_def study_ref_def)
  next
    case (Some v)
    show ?thesis
    proof (cases "studyArea v")
      case Absent
      then show ?thesis
        using Some attach_fresh [of lib h ds "Some v", OF resolve_Absent [OF Absent]] fresh
        by (simp add: study_geometry_def study_ref_def)
    next
      case (BBoxArray xs)
      show ?thesis
      proof (cases "length xs = 4")
        case True
        then show ?thesis
          using Some BBoxArray attach_fresh [of lib h ds "Some v", OF resolve_BBoxArray [OF BBoxArray True]] fresh
          by (simp add: study_geometry_def study_ref_def)
      next
        case False
        then show ?thesis
          using Some BBoxArray resolve_other_array [OF BBoxArray False, of lib h ds]
          by (simp add: study_geometry_def attach_analysis_def)
      qed
    next
      case (FeatureRef r)
      have r: "r < next_ref h"
        using assms Some FeatureRef by (simp add: allocated_input_def)
      have same: "feature_at (heap_before lib h ds options) r = feature_at h r"
        using heap_before_old [OF r] by simp
      show ?thesis
        using Some FeatureRef resolve_FeatureRef [OF FeatureRef, of lib h ds] same r
        by (simp add: study_geometry_def attach_analysis_def attach_def geometry_at_def
            study_ref_def study_props_def split: option.splits)
    qed
  qed
qed

lemma nearestNeighbor_closed:
  assumes "allocated_input h ds options"
  shows "nearestNeighbor lib h ds options =
     (case analysis_on lib h ds options of
        Inl e \<Rightarrow> Inl e
      | Inr a \<Rightarrow> Inr (attach (heap_before lib h ds options) (study_props h options) a,
                      study_ref h options))"
proof -
  have "list_all (\<lambda>f. f < next_ref h) ds"
    using assms by (simp add: allocated_input_def)
  then show ?thesis
    by (simp add: nearestNeighbor_eq attach_eq [OF assms] analysis_on_def
        split: sum.splits option.splits)
qed

section \<open>The outcome of a call\<close>

lemma attach_simps [simp]:
  "feature_at (attach h p a) = feature_at h"
  "next_ref (attach h p a) = next_ref h"
  "props_at (attach h p a) p = (props_at h p)(''nearestNeighborAnalysis'' \<mapsto> VAnalysis a)"
  "x \<noteq> p \<Longrightarrow> props_at (attach h p a) x = props_at h x"
  "geometry_at (attach h p a) = geometry_at h"
  by (simp_all add: attach_def geometry_at_def fun_eq_iff)

lemma analysis_of_attach:
  "properties (feature_at h r) = Some p \<Longrightarrow> analysis_of (attach h p a) r = Some (VAnalysis a)"
  by (simp add: analysis_of_def)

text \<open>Without any assumption on the references: what a returning call has done.\<close>

lemma attach_analysis_Inr:
  assumes "attach_analysis lib h sa n obs = Inr (h', r)"
  shows "\<exists>p. sa = FeatureRef r \<and> properties (feature_at h r) = Some p \<and>
           h' = attach h p (calculateNearestNeighborStatistics n obs
                             (js_mul (area lib (geometry_at h r)) (Fin (1 / 1000000))))"
  using assms
  by (auto simp: attach_analysis_def attach_def split: studyArea_value.splits option.splits)

lemma featureEach_push_length: "length (snd (featureEach_push lib h ds [])) = length ds"
  by (simp add: featureEach_push_snd)

lemma nearestNeighbor_returns:
  assumes "nearestNeighbor lib h ds options = Inr (h', r)"
  shows "\<exists>obs. analysis_of h' r =
           Some (VAnalysis (calculateNearestNeighborStatistics (Fin (real (length ds))) obs
                   (js_mul (area lib (geometry_at h' r)) (Fin (1 / 1000000))))) \<and>
         (\<exists>vals. obs = mean_of vals (Fin (real (length ds))) \<and> length vals = length ds) \<and>
         snd (resolve_studyArea lib h ds options) = FeatureRef r"
proof -
  let ?h1 = "fst (resolve_studyArea lib h ds options)"
  let ?sa = "snd (resolve_studyArea lib h ds options)"
  let ?h2 = "fst (featureEach_push lib ?h1 ds [])"
  let ?fs = "snd (featureEach_push lib ?h1 ds [])"
  let ?n = "Fin (real (length ds))"
  obtain vals where v: "map_raising (nearest_distance lib ?h2 ?fs) ?fs = Inr vals"
    and a: "attach_analysis lib ?h2 ?sa ?n (mean_of vals ?n) = Inr (h', r)"
    using assms
    by (auto simp: nearestNeighbor_def split_beta Let_def featureEach_push_length
        split: sum.splits)
  obtain p where sa: "?sa = FeatureRef r" and p: "properties (feature_at ?h2 r) = Some p"
    and h': "h' = attach ?h2 p (calculateNearestNeighborStatistics ?n (mean_of vals ?n)
                             (js_mul (area lib (geometry_at ?h2 r)) (Fin (1 / 1000000))))"
    using attach_analysis_Inr [OF a] by blast
  have "length vals = length ds"
    using map_raising_length [OF v] by (simp add: featureEach_push_length)
  then show ?thesis
    using sa p h' analysis_of_attach [OF p] by auto
qed

text \<open>With allocated references: the outcome, and what is left unchanged.\<close>

lemma study_props_fresh: "study_ref h options = next_ref h \<Longrightarrow> study_props h options = next_ref h"
  by (simp add: study_props_def split: option.splits)

lemma study_props_new:
  assumes "resolve_studyArea lib h ds options = (fst (new_feature h g), FeatureRef (next_ref h))"
    and "study_ref h options = next_ref h"
  shows "properties (feature_at (heap_before lib h ds options) (study_ref h options)) =
           Some (study_props h options)"
  using heap_before_fresh [OF assms(1)] study_props_fresh [OF assms(2)] assms(2) by simp

lemma study_props_ok:
  assumes "allocated_input h ds options" "study_geometry lib h ds options = Some g"
  shows "properties (feature_at (heap_before lib h ds options) (study_ref h options)) =
           Some (study_props h options)"
proof (cases options)
  case None
  have sr: "study_ref h None = next_ref h" by (simp add: study_ref_def)
  show ?thesis unfolding None by (rule study_props_new [OF resolve_None sr])
next
  case (Some v)
  show ?thesis
  proof (cases "studyArea v")
    case Absent
    then have sr: "study_ref h (Some v) = next_ref h" by (simp add: study_ref_def)
    show ?thesis unfolding Some by (rule study_props_new [OF resolve_Absent [OF Absent] sr])
  next
    case (BBoxArray xs)
    then have len: "length xs = 4"
      using assms(2) Some by (simp add: study_geometry_def split: if_splits)
    have sr: "study_ref h (Some v) = next_ref h" using BBoxArray by (simp add: study_ref_def)
    show ?thesis
      unfolding Some by (rule study_props_new [OF resolve_BBoxArray [OF BBoxArray len] sr])
  next
    case (FeatureRef r)
    have r: "r < next_ref h"
      using assms(1) Some FeatureRef by (simp add: allocated_input_def)
    show ?thesis
      using Some FeatureRef assms(2) heap_before_old [OF r, of lib ds options] r
      by (simp add: study_geometry_def study_ref_def study_props_def split: option.splits)
  qed
qed

lemma analysis_on_study:
  "analysis_on lib h ds options = Inr a \<Longrightarrow> \<exists>g. study_geometry lib h ds options = Some g"
  by (auto simp: analysis_on_def split: sum.splits option.splits)

lemma nearestNeighbor_outcome:
  assumes "allocated_input h ds options"
  shows "outcome (nearestNeighbor lib h ds options) =
     (case analysis_on lib h ds options of
        Inl e \<Rightarrow> Inl e
      | Inr a \<Rightarrow> Inr (study_ref h options, Some (VAnalysis a)))"
proof (cases "analysis_on lib h ds options")
  case (Inl e)
  then show ?thesis by (simp add: nearestNeighbor_closed [OF assms] outcome_def)
next
  case (Inr a)
  obtain g where "study_geometry lib h ds options = Some g"
    using analysis_on_study [OF Inr] by blast
  then show ?thesis
    using Inr analysis_of_attach [OF study_props_ok [OF assms]]
    by (simp add: nearestNeighbor_closed [OF assms] outcome_def)
qed

lemma nearestNeighbor_frame:
  assumes "allocated_input h ds options" "nearestNeighbor lib h ds options = Inr (h', r)"
    and "x < next_ref h"
  shows "feature_at h' x = feature_at h x"
    and "x \<noteq> study_props h options \<Longrightarrow> props_at h' x = props_at h x"
    and "next_ref h \<le> next_ref h'"
proof -
  obtain a where h': "h' = attach (heap_before lib h ds options) (study_props h options) a"
    using assms(2) by (auto simp: nearestNeighbor_closed [OF assms(1)] split: sum.splits)
  show "feature_at h' x = feature_at h x"
    using heap_before_old [OF assms(3), of lib ds options] by (simp add: h')
  show "x \<noteq> study_props h options \<Longrightarrow> props_at h' x = props_at h x"
    using heap_before_old [OF assms(3), of lib ds options] by (simp add: h')
  show "next_ref h \<le> next_ref h'"
    using heap_before_next [of h lib ds options] by (simp add: h')
qed

section \<open>Evaluation at concrete inputs\<close>

lemma js_lt_Fin [simp]:
  "js_lt (Fin a) (Fin b) = (a < b)" "js_lt (Fin a) PosInf" "\<not> js_lt PosInf (Fin a)"
  "js_lt NegInf (Fin a)" "\<not> js_lt (Fin a) NegInf"
  by (simp_all add: js_lt_def)

lemmas run_defs = nearestNeighbor_def resolve_studyArea_def heap_of_def new_feature_def
  geometry_at_def planar_def planar_bbox_def planar_bboxPolygon_def number_at_def Let_def
  zero_of_def inf_of_def planar_centroid_def nearest_distance_def theOtherFeatures_def
  planar_nearestPoint_def mean_of_def attach_analysis_def

section \<open>The default export\<close>

text \<open>
  C1. The default export of the module should be the function \<^verbatim>\<open>nearestNeighbor\<close>. Line 75
  exports the identifier \<^verbatim>\<open>circle\<close> instead, which has no binding in the module: evaluating
  the export raises a ReferenceError, although \<^verbatim>\<open>nearestNeighbor\<close> is bound in the module
  scope. The module therefore never yields a callable function.
\<close>

theorem default_export_is_unbound:
  "evaluate_default_export = Inl (ReferenceError ''circle'') \<and>
   ''nearestNeighbor'' \<in> set module_scope"
  by (simp add: evaluate_default_export_def default_export_identifier_def module_scope_def)

section \<open>The number of points\<close>

text \<open>
  C7. Whenever \<open>nearestNeighbor\<close> returns, the \<^verbatim>\<open>numberOfPoints\<close> field of the attached
  statistics is the number of features of the dataset. The statement holds for every
  geometry type \<open>'g\<close> and every library: each feature, whatever its geometry, contributes
  exactly one centroid.
\<close>

theorem numberOfPoints_counts_features:
  assumes "nearestNeighbor lib h dataset options = Inr (h', r)"
  shows "\<exists>a. analysis_of h' r = Some (VAnalysis a) \<and>
              numberOfPoints a = Fin (real (length dataset))"
  using nearestNeighbor_returns [OF assms]
  by (auto simp: calculateNearestNeighborStatistics_def)

text \<open>At a dataset of a point, a line and a polygon the call returns and the count is 3.\<close>

theorem numberOfPoints_counts_features_witness:
  "\<exists>h' a. nearestNeighbor planar (heap_of (Point (Fin 0, Fin 0)) mixed_features) [0, 1, 2] None =
             Inr (h', 3) \<and>
           analysis_of h' 3 = Some (VAnalysis a) \<and> numberOfPoints a = Fin 3"
proof -
  obtain h' where run:
      "nearestNeighbor planar (heap_of (Point (Fin 0, Fin 0)) mixed_features) [0, 1, 2] None =
         Inr (h', 3)"
    by (simp add: run_defs mixed_features_def)
  show ?thesis
    using numberOfPoints_counts_features [OF run] run by auto
qed

section \<open>Heaps that agree on the input\<close>

lemma allocated_input_mono:
  assumes "allocated_input h ds options" "next_ref h \<le> next_ref h1"
    and "\<And>x. x < next_ref h \<Longrightarrow> feature_at h1 x = feature_at h x"
  shows "allocated_input h1 ds options"
  using assms
  by (auto simp: allocated_input_def list_all_iff split: option.splits studyArea_value.splits)

lemma analysis_on_cong:
  assumes "allocated_input h ds options"
    and same: "\<And>x. x < next_ref h \<Longrightarrow> feature_at h1 x = feature_at h x"
  shows "analysis_on lib h1 ds options = analysis_on lib h ds options"
proof -
  have ds: "\<And>f. f \<in> set ds \<Longrightarrow> geometry_at h1 f = geometry_at h f"
    using assms by (simp add: allocated_input_def list_all_iff geometry_at_def)
  then have c: "centroids_of lib h1 ds = centroids_of lib h ds"
    and m: "map (geometry_at h1) ds = map (geometry_at h) ds"
    by (simp_all add: centroids_of_def)
  have g: "\<And>r. r < next_ref h \<Longrightarrow> geometry_at h1 r = geometry_at h r"
    using same by (simp add: geometry_at_def)
  have "study_geometry lib h1 ds options = study_geometry lib h ds options"
    using assms(1) same g
    by (auto simp: study_geometry_def allocated_input_def m
        split: option.splits studyArea_value.splits)
  then show ?thesis by (simp only: analysis_on_def c)
qed

lemma outcome_Inr:
  "outcome res = Inr (r, v) \<Longrightarrow> \<exists>h'. res = Inr (h', r) \<and> analysis_of h' r = v"
  by (auto simp: outcome_def split: sum.splits)

lemma park_allocated: "allocated_input park_heap [0, 1] park_options"
  by (simp add: allocated_input_def park_heap_def park_options_def heap_of_def)

lemma park_run:
  "\<exists>h'. nearestNeighbor planar park_heap [0, 1] park_options = Inr (h', 2)"
  by (simp add: run_defs park_heap_def park_options_def)

section \<open>The closed-form statistics\<close>

text \<open>
  C3. The statistics object that a returning call attaches equals the closed-form
  Clark-Evans formulas of the specification, computed for \<open>n\<close> the number of features,
  for the observed mean distance, and for the area of the returned study area converted
  from square metres to square kilometres by the factor \<open>0.000001\<close>: the population
  density is \<open>n / areaSqKm\<close>, the expected mean distance \<open>1 / (2 * sqrt popDensity)\<close>, the
  variance \<open>0.26136 / sqrt (n * popDensity)\<close>, the index \<open>observed / expected\<close> and the
  z-score \<open>(observed - expected) / variance\<close>; the observed mean distance is the sum of one
  distance per feature, from 0, divided by \<open>n\<close>. This holds for every returning call, so in
  particular for \<open>n \<ge> 1\<close>, an observed mean distance that is not negative and a positive
  area. Both sides are built from the same operations on numbers and the proof uses no
  property of these operations: the equality does not depend on how a finite result is
  rounded, or on whether it overflows or underflows.
\<close>

theorem statistics_are_clark_evans:
  assumes run: "nearestNeighbor lib h dataset options = Inr (h', r)"
    and n: "n = Fin (real (length dataset))"
    and km: "areaSqKm = js_mul (area lib (geometry_at h' r)) (Fin (1 / 1000000))"
  shows "\<exists>a. analysis_of h' r = Some (VAnalysis a) \<and>
           numberOfPoints a = n \<and>
           popDensity n areaSqKm = spec_popDensity n areaSqKm \<and>
           variance n areaSqKm = spec_variance n areaSqKm \<and>
           expectedMeanDistance a = spec_expectedMeanDistance n areaSqKm \<and>
           nearestNeighborIndex a = spec_nearestNeighborIndex n (observedMeanDistance a) areaSqKm \<and>
           zScore a = spec_zScore n (observedMeanDistance a) areaSqKm \<and>
           (\<exists>vals. length vals = length dataset \<and>
                   observedMeanDistance a = js_div (foldl js_add (Fin 0) vals) n)"
proof -
  obtain obs vals where a: "analysis_of h' r =
      Some (VAnalysis (calculateNearestNeighborStatistics n obs areaSqKm))"
    and obs: "obs = mean_of vals n" and len: "length vals = length dataset"
    using nearestNeighbor_returns [OF run] unfolding n km by blast
  let ?a = "calculateNearestNeighborStatistics n obs areaSqKm"
  have pd: "popDensity n areaSqKm = spec_popDensity n areaSqKm"
    by (simp add: popDensity_def spec_popDensity_def)
  have e: "expectedMeanDistance_of n areaSqKm = spec_expectedMeanDistance n areaSqKm"
    by (simp add: expectedMeanDistance_of_def spec_expectedMeanDistance_def pd)
  have v: "variance n areaSqKm = spec_variance n areaSqKm"
    by (simp add: variance_def spec_variance_def pd)
  have fields: "numberOfPoints ?a = n"
    "expectedMeanDistance ?a = spec_expectedMeanDistance n areaSqKm"
    "nearestNeighborIndex ?a = spec_nearestNeighborIndex n (observedMeanDistance ?a) areaSqKm"
    "zScore ?a = spec_zScore n (observedMeanDistance ?a) areaSqKm"
    "observedMeanDistance ?a = js_div (foldl js_add (Fin 0) vals) n"
    by (simp_all add: calculateNearestNeighborStatistics_def e v spec_nearestNeighborIndex_def
        spec_zScore_def obs mean_of_def)
  show ?thesis
    using a pd v fields len by blast
qed

text \<open>
  At the dataset of a point, a line and a polygon, with the default study area of
  4 square kilometres: \<open>n = 3\<close>, the three distances are 1 and so is their mean.
\<close>

theorem statistics_are_clark_evans_witness:
  "\<exists>h' a. nearestNeighbor planar (heap_of (Point (Fin 0, Fin 0)) mixed_features) [0, 1, 2] None =
             Inr (h', 3) \<and>
           js_mul (area planar (geometry_at h' 3)) (Fin (1 / 1000000)) = Fin 4 \<and>
           analysis_of h' 3 = Some (VAnalysis a) \<and>
           observedMeanDistance a = Fin 1 \<and>
           numberOfPoints a = Fin 3 \<and>
           expectedMeanDistance a = spec_expectedMeanDistance (Fin 3) (Fin 4) \<and>
           nearestNeighborIndex a = spec_nearestNeighborIndex (Fin 3) (Fin 1) (Fin 4) \<and>
           zScore a = spec_zScore (Fin 3) (Fin 1) (Fin 4) \<and>
           spec_popDensity (Fin 3) (Fin 4) = Fin (3 / 4) \<and>
           spec_expectedMeanDistance (Fin 3) (Fin 4) = Fin (1 / (2 * sqrt (3 / 4)))"
proof -
  obtain h' where run:
      "nearestNeighbor planar (heap_of (Point (Fin 0, Fin 0)) mixed_features) [0, 1, 2] None =
         Inr (h', 3)"
    and ar: "js_mul (area planar (geometry_at h' 3)) (Fin (1 / 1000000)) = Fin 4"
    and ob: "\<exists>a. analysis_of h' 3 = Some (VAnalysis a) \<and> observedMeanDistance a = Fin 1"
    by (simp add: run_defs mixed_features_def analysis_of_def calculateNearestNeighborStatistics_def)
  have n: "Fin 3 = Fin (real (length [0::nat, 1, 2]))"
    by simp
  have evaluated: "spec_popDensity (Fin 3) (Fin 4) = Fin (3 / 4)"
    "spec_expectedMeanDistance (Fin 3) (Fin 4) = Fin (1 / (2 * sqrt (3 / 4)))"
    by (simp_all add: spec_popDensity_def spec_expectedMeanDistance_def)
  show ?thesis
    using statistics_are_clark_evans [OF run n ar [symmetric]] run ar ob evaluated by auto
qed

section \<open>The study area is resolved three ways\<close>

text \<open>
  C5. Lines 28 to 34 resolve the study area to one feature in each of the three cases: when
  \<^verbatim>\<open>options.studyArea\<close> is absent, to a new feature whose geometry is the polygon of the
  dataset's bounding box; when it is an array of 4 numbers, to a new feature whose geometry
  is the polygon of that array, built by the same \<^verbatim>\<open>bboxPolygon\<close>; when it is a feature, to
  that feature, with the heap unchanged. No feature that existed before is changed, and
  the reference a returning call returns is the resolved one.
\<close>

theorem studyArea_resolved_three_ways:
  "(options = None \<or> (\<exists>v. options = Some v \<and> studyArea v = Absent) \<longrightarrow>
      snd (resolve_studyArea lib h dataset options) = FeatureRef (next_ref h) \<and>
      feature_at (fst (resolve_studyArea lib h dataset options)) (next_ref h) =
        \<lparr> geometry = bboxPolygon lib (bbox lib (map (geometry_at h) dataset)),
          properties = Some (next_ref h) \<rparr>) \<and>
   (\<forall>v xs. options = Some v \<and> studyArea v = BBoxArray xs \<and> length xs = 4 \<longrightarrow>
      snd (resolve_studyArea lib h dataset options) = FeatureRef (next_ref h) \<and>
      feature_at (fst (resolve_studyArea lib h dataset options)) (next_ref h) =
        \<lparr> geometry = bboxPolygon lib xs, properties = Some (next_ref h) \<rparr>) \<and>
   (\<forall>v r. options = Some v \<and> studyArea v = FeatureRef r \<longrightarrow>
      resolve_studyArea lib h dataset options = (h, FeatureRef r)) \<and>
   (\<forall>x < next_ref h.
      feature_at (fst (resolve_studyArea lib h dataset options)) x = feature_at h x) \<and>
   (\<forall>h' r. nearestNeighbor lib h dataset options = Inr (h', r) \<longrightarrow>
      snd (resolve_studyArea lib h dataset options) = FeatureRef r)"
proof -
  have absent: "snd (resolve_studyArea lib h dataset options) = FeatureRef (next_ref h) \<and>
      feature_at (fst (resolve_studyArea lib h dataset options)) (next_ref h) =
        \<lparr> geometry = bboxPolygon lib (bbox lib (map (geometry_at h) dataset)),
          properties = Some (next_ref h) \<rparr>"
    if "options = None \<or> (\<exists>v. options = Some v \<and> studyArea v = Absent)"
    using that resolve_None [of lib h dataset] resolve_Absent [of _ lib h dataset] by auto
  have array: "snd (resolve_studyArea lib h dataset options) = FeatureRef (next_ref h) \<and>
      feature_at (fst (resolve_studyArea lib h dataset options)) (next_ref h) =
        \<lparr> geometry = bboxPolygon lib xs, properties = Some (next_ref h) \<rparr>"
    if "options = Some v" "studyArea v = BBoxArray xs" "length xs = 4" for v xs
    using that resolve_BBoxArray [of v xs lib h dataset] by simp
  have feat: "resolve_studyArea lib h dataset options = (h, FeatureRef r)"
    if "options = Some v" "studyArea v = FeatureRef r" for v r
    using that resolve_FeatureRef [of v r lib h dataset] by simp
  have old: "\<forall>x < next_ref h.
      feature_at (fst (resolve_studyArea lib h dataset options)) x = feature_at h x"
    using resolve_old [of _ h lib dataset options] by simp
  have ret: "snd (resolve_studyArea lib h dataset options) = FeatureRef r"
    if "nearestNeighbor lib h dataset options = Inr (h', r)" for h' r
    using nearestNeighbor_returns [OF that] by blast
  show ?thesis
    using absent array feat old ret by blast
qed

text \<open>The three cases at the heap of the park: the default, an array and the polygon itself.\<close>

theorem studyArea_resolved_three_ways_witness:
  "resolve_studyArea planar park_heap [0, 1] None =
     (fst (resolve_studyArea planar park_heap [0, 1] None), FeatureRef 3) \<and>
   geometry_at (fst (resolve_studyArea planar park_heap [0, 1] None)) 3 =
     Polygon [[(Fin 0, Fin 0), (Fin 3, Fin 0), (Fin 3, Fin 4), (Fin 0, Fin 4), (Fin 0, Fin 0)]] \<and>
   resolve_studyArea planar park_heap [0, 1]
       (Some \<lparr> studyArea = BBoxArray [Fin 0, Fin 0, Fin 4, Fin 4] \<rparr>) =
     (fst (resolve_studyArea planar park_heap [0, 1]
        (Some \<lparr> studyArea = BBoxArray [Fin 0, Fin 0, Fin 4, Fin 4] \<rparr>)), FeatureRef 3) \<and>
   geometry_at (fst (resolve_studyArea planar park_heap [0, 1]
        (Some \<lparr> studyArea = BBoxArray [Fin 0, Fin 0, Fin 4, Fin 4] \<rparr>))) 3 =
     Polygon [[(Fin 0, Fin 0), (Fin 4, Fin 0), (Fin 4, Fin 4), (Fin 0, Fin 4), (Fin 0, Fin 0)]] \<and>
   resolve_studyArea planar park_heap [0, 1] park_options = (park_heap, FeatureRef 2)"
proof -
  have n: "next_ref park_heap = 3"
    by (simp add: park_heap_def heap_of_def)
  have g1: "bboxPolygon planar (bbox planar (map (geometry_at park_heap) [0, 1])) =
      Polygon [[(Fin 0, Fin 0), (Fin 3, Fin 0), (Fin 3, Fin 4), (Fin 0, Fin 4), (Fin 0, Fin 0)]]"
    by (simp add: planar_def planar_bbox_def planar_bboxPolygon_def number_at_def park_heap_def
        heap_of_def geometry_at_def Let_def)
  have g2: "bboxPolygon planar [Fin 0, Fin 0, Fin 4, Fin 4] =
      Polygon [[(Fin 0, Fin 0), (Fin 4, Fin 0), (Fin 4, Fin 4), (Fin 0, Fin 4), (Fin 0, Fin 0)]]"
    by (simp add: planar_def planar_bboxPolygon_def number_at_def Let_def)
  have a: "snd (resolve_studyArea planar park_heap [0, 1] None) = FeatureRef (next_ref park_heap) \<and>
      feature_at (fst (resolve_studyArea planar park_heap [0, 1] None)) (next_ref park_heap) =
        \<lparr> geometry = bboxPolygon planar (bbox planar (map (geometry_at park_heap) [0, 1])),
          properties = Some (next_ref park_heap) \<rparr>"
    using studyArea_resolved_three_ways [of None planar park_heap "[0, 1]"] by blast
  have len: "length [Fin 0, Fin 0, Fin 4, Fin 4] = 4" by simp
  have b: "snd (resolve_studyArea planar park_heap [0, 1]
             (Some \<lparr> studyArea = BBoxArray [Fin 0, Fin 0, Fin 4, Fin 4] \<rparr>)) =
        FeatureRef (next_ref park_heap) \<and>
      feature_at (fst (resolve_studyArea planar park_heap [0, 1]
             (Some \<lparr> studyArea = BBoxArray [Fin 0, Fin 0, Fin 4, Fin 4] \<rparr>))) (next_ref park_heap) =
        \<lparr> geometry = bboxPolygon planar [Fin 0, Fin 0, Fin 4, Fin 4],
          properties = Some (next_ref park_heap) \<rparr>"
    using studyArea_resolved_three_ways
        [of "Some \<lparr> studyArea = BBoxArray [Fin 0, Fin 0, Fin 4, Fin 4] \<rparr>" planar park_heap "[0, 1]"]
      len
    by simp
  have c: "resolve_studyArea planar park_heap [0, 1] park_options = (park_heap, FeatureRef 2)"
    using studyArea_resolved_three_ways [of park_options planar park_heap "[0, 1]"]
    by (simp add: park_options_def)
  show ?thesis
    using a [unfolded g1 n] b [unfolded g2 n] c
    by (simp add: geometry_at_def prod_eq_iff)
qed

section \<open>Determinism across two calls\<close>

text \<open>
  C9. The model is a function, so one input has one outcome. The second of two calls does
  not start from the same heap as the first, since the first call allocates objects and
  writes into the study area's properties; it still attaches the same statistics: when
  the first call returns on allocated input, the second call on the heap it left returns
  too, and the two attached analysis objects are equal, field by field. (The parameters
  of the library are functions of the geometries, so the library is deterministic and
  never reads the properties that the first call wrote.)
\<close>

theorem second_call_same_statistics:
  assumes alloc: "allocated_input h dataset options"
    and run: "nearestNeighbor lib h dataset options = Inr (h1, r1)"
  shows "\<exists>h2 r2 a. nearestNeighbor lib h1 dataset options = Inr (h2, r2) \<and>
           analysis_of h1 r1 = Some (VAnalysis a) \<and> analysis_of h2 r2 = Some (VAnalysis a)"
proof -
  obtain a where a: "analysis_on lib h dataset options = Inr a"
    using run by (auto simp: nearestNeighbor_closed [OF alloc] split: sum.splits)
  have first: "analysis_of h1 r1 = Some (VAnalysis a)"
    using nearestNeighbor_outcome [OF alloc, of lib] run a by (auto simp: outcome_def)
  have same: "\<And>x. x < next_ref h \<Longrightarrow> feature_at h1 x = feature_at h x"
    using nearestNeighbor_frame(1) [OF alloc run] by simp
  have "next_ref h \<le> next_ref h1"
    using run by (auto simp: nearestNeighbor_closed [OF alloc] heap_before_next split: sum.splits)
  then have alloc1: "allocated_input h1 dataset options"
    using allocated_input_mono [OF alloc _ same] by simp
  have "analysis_on lib h1 dataset options = Inr a"
    using analysis_on_cong [OF alloc same] a by simp
  then have "outcome (nearestNeighbor lib h1 dataset options) =
      Inr (study_ref h1 options, Some (VAnalysis a))"
    by (simp add: nearestNeighbor_outcome [OF alloc1])
  then show ?thesis
    using outcome_Inr first by blast
qed

text \<open>Two calls in a row on the park: both return and attach the same analysis.\<close>

theorem second_call_same_statistics_witness:
  "\<exists>h1 h2 r2 a. nearestNeighbor planar park_heap [0, 1] park_options = Inr (h1, 2) \<and>
       nearestNeighbor planar h1 [0, 1] park_options = Inr (h2, r2) \<and>
       analysis_of h1 2 = Some (VAnalysis a) \<and> analysis_of h2 r2 = Some (VAnalysis a)"
proof -
  obtain h1 where run: "nearestNeighbor planar park_heap [0, 1] park_options = Inr (h1, 2)"
    using park_run by blast
  show ?thesis
    using second_call_same_statistics [OF park_allocated run] run by blast
qed

section \<open>The supplied polygon is mutated in place\<close>

text \<open>
  C10. When \<^verbatim>\<open>options.studyArea\<close> is a feature, a returning call returns that very
  reference. The feature object itself is unchanged (its geometry and its reference to the
  properties object), as is every other feature that existed; the properties object of
  the study area is updated in place at the single key \<^verbatim>\<open>nearestNeighborAnalysis\<close>, which is
  set or overwritten, every other key keeping its value; every other properties object that
  existed is unchanged.
\<close>

theorem supplied_polygon_is_mutated_in_place:
  assumes alloc: "allocated_input h dataset (Some v)"
    and sa: "studyArea v = FeatureRef r0"
    and run: "nearestNeighbor lib h dataset (Some v) = Inr (h', r)"
  shows "r = r0 \<and> feature_at h' r0 = feature_at h r0 \<and>
         (\<forall>x < next_ref h. feature_at h' x = feature_at h x) \<and>
         (\<exists>p a. properties (feature_at h r0) = Some p \<and>
                 props_at h' p = (props_at h p)(''nearestNeighborAnalysis'' \<mapsto> VAnalysis a) \<and>
                 (\<forall>x < next_ref h. x \<noteq> p \<longrightarrow> props_at h' x = props_at h x))"
proof -
  have r0: "r0 < next_ref h"
    using alloc sa by (simp add: allocated_input_def)
  have sr: "study_ref h (Some v) = r0"
    using sa by (simp add: study_ref_def)
  obtain a where a: "analysis_on lib h dataset (Some v) = Inr a"
    and h': "h' = attach (heap_before lib h dataset (Some v)) (study_props h (Some v)) a"
    and r: "r = r0"
    using run sr by (auto simp: nearestNeighbor_closed [OF alloc] split: sum.splits)
  obtain g where "study_geometry lib h dataset (Some v) = Some g"
    using analysis_on_study [OF a] by blast
  then obtain p where p: "properties (feature_at h r0) = Some p"
    using sa by (auto simp: study_geometry_def split: option.splits)
  have sp: "study_props h (Some v) = p"
    using p r0 sr by (simp add: study_props_def)
  have pa: "p < next_ref h"
    using alloc sa p by (simp add: allocated_input_def)
  have frame: "\<And>x. x < next_ref h \<Longrightarrow> feature_at h' x = feature_at h x"
    using nearestNeighbor_frame(1) [OF alloc run] by simp
  have "props_at h' p = (props_at h p)(''nearestNeighborAnalysis'' \<mapsto> VAnalysis a)"
    using heap_before_old [OF pa, of lib dataset "Some v"] by (simp add: h' sp)
  moreover have "\<forall>x < next_ref h. x \<noteq> p \<longrightarrow> props_at h' x = props_at h x"
    using nearestNeighbor_frame(2) [OF alloc run] sp by simp
  ultimately show ?thesis
    using r frame r0 p by blast
qed

text \<open>
  At the park the stale value under the key is overwritten and the property \<^verbatim>\<open>name\<close> is
  kept.
\<close>

theorem supplied_polygon_is_mutated_in_place_witness:
  "\<exists>h' a. nearestNeighbor planar park_heap [0, 1] park_options = Inr (h', 2) \<and>
       feature_at h' 2 = feature_at park_heap 2 \<and>
       props_at park_heap 2 = [''name'' \<mapsto> VStr ''park'', ''nearestNeighborAnalysis'' \<mapsto> VStr ''stale''] \<and>
       props_at h' 2 = [''name'' \<mapsto> VStr ''park'', ''nearestNeighborAnalysis'' \<mapsto> VAnalysis a]"
proof -
  obtain h' where run: "nearestNeighbor planar park_heap [0, 1] park_options = Inr (h', 2)"
    using park_run by blast
  have sa: "studyArea \<lparr> studyArea = FeatureRef 2 \<rparr> = FeatureRef 2" by simp
  have p: "properties (feature_at park_heap 2) = Some 2"
    by (simp add: park_heap_def heap_of_def)
  have old: "props_at park_heap 2 =
      [''name'' \<mapsto> VStr ''park'', ''nearestNeighborAnalysis'' \<mapsto> VStr ''stale'']"
    by (simp add: park_heap_def)
  obtain a where
    "feature_at h' 2 = feature_at park_heap 2"
    "props_at h' 2 = (props_at park_heap 2)(''nearestNeighborAnalysis'' \<mapsto> VAnalysis a)"
    using supplied_polygon_is_mutated_in_place
      [OF park_allocated [unfolded park_options_def] sa run [unfolded park_options_def]] p
    by auto
  then show ?thesis
    using run old by (auto simp: fun_upd_twist)
qed

section \<open>Datasets of fewer than two features\<close>

lemma js_NaN [simp]:
  "js_div NaN y = NaN" "js_div x NaN = NaN" "js_mul NaN y = NaN" "js_mul x NaN = NaN"
  "js_add NaN y = NaN" "js_add x NaN = NaN" "js_sub NaN y = NaN" "js_sub x NaN = NaN"
  by (simp_all add: js_div_def js_mul_def js_add_def js_sub_def)

lemma mean_of_Nil [simp]: "mean_of [] (Fin 0) = NaN"
  by (simp add: mean_of_def)

lemma calculate_NaN:
  "calculateNearestNeighborStatistics n NaN theArea =
     \<lparr> observedMeanDistance = NaN, expectedMeanDistance = expectedMeanDistance_of n theArea,
       nearestNeighborIndex = NaN, numberOfPoints = n, zScore = NaN \<rparr>"
  by (simp add: calculateNearestNeighborStatistics_def)

lemma single_feature_raises:
  assumes "\<And>c. nearestPoint lib c [] = None"
  shows "nearestNeighbor lib h [f] options = Inl LibraryError"
  by (simp add: nearestNeighbor_def split_beta Let_def nearest_distance_def theOtherFeatures_def
      assms)

lemma nearestNeighbor_empty:
  "nearestNeighbor lib h [] options =
     attach_analysis lib (fst (resolve_studyArea lib h [] options))
       (snd (resolve_studyArea lib h [] options)) (Fin 0) NaN"
  by (simp add: nearestNeighbor_def split_beta)

lemma attach_analysis_empty:
  assumes "properties (feature_at h1 r) = Some p"
  shows "\<exists>h'. attach_analysis lib h1 (FeatureRef r) (Fin 0) NaN = Inr (h', r) \<and> empty_result h' r"
proof -
  let ?a = "calculateNearestNeighborStatistics (Fin 0) NaN
              (js_mul (area lib (geometry_at h1 r)) (Fin (1 / 1000000)))"
  have "attach_analysis lib h1 (FeatureRef r) (Fin 0) NaN = Inr (attach h1 p ?a, r)"
    using assms by (simp add: attach_analysis_def attach_def)
  moreover have "empty_result (attach h1 p ?a) r"
    using analysis_of_attach [of h1 r p ?a] assms
    by (simp add: empty_result_def calculate_NaN)
  ultimately show ?thesis by blast
qed

text \<open>
  C2, as amended. The specification asks for an InvalidInput error on a dataset of zero or
  one feature; \<^verbatim>\<open>index.js\<close> has no such check and no \<^verbatim>\<open>throw\<close> at all. For an empty
  dataset, whenever the study area resolves to a feature that has a properties object, the
  call returns that feature with \<^verbatim>\<open>numberOfPoints = 0\<close> and with \<^verbatim>\<open>observedMeanDistance\<close>,
  \<^verbatim>\<open>nearestNeighborIndex\<close> and \<^verbatim>\<open>zScore\<close> all NaN (the mean is \<open>0 / 0\<close>). That is so for the
  default study area, for an array of 4 numbers, and for a supplied feature whose
  properties are an object. In the remaining cases (an array of another length, a feature
  whose properties are null) the call raises at the assignment of line 49, and the analysis
  of an empty dataset never raises anything else. For a dataset of exactly one feature the
  candidate collection handed to \<^verbatim>\<open>nearestPoint\<close> is empty; when the library yields no
  point there, the call ends with the library's error, raised before the statistics
  formula is invoked, and no result is returned.
\<close>

theorem small_dataset_is_not_rejected:
  "(\<forall>r p. snd (resolve_studyArea lib h [] options) = FeatureRef r \<and>
          properties (feature_at (fst (resolve_studyArea lib h [] options)) r) = Some p \<longrightarrow>
      (\<exists>h'. nearestNeighbor lib h [] options = Inr (h', r) \<and> empty_result h' r)) \<and>
   (options = None \<or>
    (\<exists>v. options = Some v \<and>
         (studyArea v = Absent \<or> (\<exists>xs. studyArea v = BBoxArray xs \<and> length xs = 4))) \<longrightarrow>
      (\<exists>h'. nearestNeighbor lib h [] options = Inr (h', next_ref h) \<and>
            empty_result h' (next_ref h))) \<and>
   (\<forall>v r p. options = Some v \<and> studyArea v = FeatureRef r \<and>
            properties (feature_at h r) = Some p \<longrightarrow>
      (\<exists>h'. nearestNeighbor lib h [] options = Inr (h', r) \<and> empty_result h' r)) \<and>
   ((\<forall>r. snd (resolve_studyArea lib h [] options) = FeatureRef r \<longrightarrow>
         properties (feature_at (fst (resolve_studyArea lib h [] options)) r) = None) \<longrightarrow>
      nearestNeighbor lib h [] options = Inl TypeError) \<and>
   (\<forall>h' r. nearestNeighbor lib h [] options = Inr (h', r) \<longrightarrow> empty_result h' r) \<and>
   ((\<forall>c. nearestPoint lib c [] = None) \<longrightarrow> nearestNeighbor lib h [f] options = Inl LibraryError)"
proof -
  let ?h1 = "fst (resolve_studyArea lib h [] options)"
  let ?sa = "snd (resolve_studyArea lib h [] options)"
  have resolved: "\<exists>h'. nearestNeighbor lib h [] options = Inr (h', r) \<and> empty_result h' r"
    if "?sa = FeatureRef r" "properties (feature_at ?h1 r) = Some p" for r p
    using attach_analysis_empty [OF that(2), of lib] that(1)
    by (simp add: nearestNeighbor_empty)
  have fresh: "\<exists>h'. nearestNeighbor lib h [] options = Inr (h', next_ref h) \<and>
            empty_result h' (next_ref h)"
    if "resolve_studyArea lib h [] options = (fst (new_feature h g), FeatureRef (next_ref h))" for g
    using resolved [of "next_ref h" "next_ref h"] that by simp
  have default: "\<exists>h'. nearestNeighbor lib h [] options = Inr (h', next_ref h) \<and>
            empty_result h' (next_ref h)"
    if "options = None \<or>
        (\<exists>v. options = Some v \<and>
             (studyArea v = Absent \<or> (\<exists>xs. studyArea v = BBoxArray xs \<and> length xs = 4)))"
    using that fresh resolve_None [of lib h "[]"] resolve_Absent [of _ lib h "[]"]
      resolve_BBoxArray [of _ _ lib h "[]"]
    by (elim disjE exE conjE) simp_all
  have supplied: "\<exists>h'. nearestNeighbor lib h [] options = Inr (h', r) \<and> empty_result h' r"
    if "options = Some v" "studyArea v = FeatureRef r" "properties (feature_at h r) = Some p"
    for v r p
    using resolved [of r p] that resolve_FeatureRef [of v r lib h "[]"] by simp
  have raises: "nearestNeighbor lib h [] options = Inl TypeError"
    if "\<forall>r. ?sa = FeatureRef r \<longrightarrow> properties (feature_at ?h1 r) = None"
    using that
    by (simp add: nearestNeighbor_empty attach_analysis_def
        split: studyArea_value.splits option.splits)
  have returned: "empty_result h' r"
    if "nearestNeighbor lib h [] options = Inr (h', r)" for h' r
    using nearestNeighbor_returns [OF that] by (auto simp: empty_result_def calculate_NaN)
  have single: "nearestNeighbor lib h [f] options = Inl LibraryError"
    if "\<forall>c. nearestPoint lib c [] = None"
    using that single_feature_raises [of lib h f options] by simp
  show ?thesis
    using resolved default supplied raises returned single by blast
qed

text \<open>
  At the park: with no feature the call returns the park with NaN fields, and it does so
  with the default study area too; with an empty array as study area it raises at line
  49; with one feature it raises the library's error.
\<close>

theorem small_dataset_is_not_rejected_witness:
  "(\<forall>c. nearestPoint planar c [] = None) \<and>
   nearestNeighbor planar park_heap [0] park_options = Inl LibraryError \<and>
   properties (feature_at park_heap 2) = Some 2 \<and>
   (\<exists>h'. nearestNeighbor planar park_heap [] park_options = Inr (h', 2) \<and> empty_result h' 2) \<and>
   (\<exists>h'. nearestNeighbor planar park_heap [] None = Inr (h', 3) \<and> empty_result h' 3) \<and>
   nearestNeighbor planar park_heap [] (Some \<lparr> studyArea = BBoxArray [] \<rparr>) = Inl TypeError"
proof -
  have none: "\<forall>c. nearestPoint planar c [] = None"
    by (simp add: planar_def planar_nearestPoint_def)
  have p: "properties (feature_at park_heap 2) = Some 2"
    by (simp add: park_heap_def heap_of_def)
  have n: "next_ref park_heap = 3"
    by (simp add: park_heap_def heap_of_def)
  have sa: "studyArea \<lparr> studyArea = FeatureRef 2 \<rparr> = FeatureRef 2"
    by simp
  have array: "\<forall>r. snd (resolve_studyArea planar park_heap [] (Some \<lparr> studyArea = BBoxArray [] \<rparr>)) =
      FeatureRef r \<longrightarrow>
      properties (feature_at (fst (resolve_studyArea planar park_heap []
        (Some \<lparr> studyArea = BBoxArray [] \<rparr>))) r) = None"
    by (simp add: resolve_studyArea_def)
  have a: "nearestNeighbor planar park_heap [0] park_options = Inl LibraryError"
    using small_dataset_is_not_rejected [of planar park_heap park_options 0] none by blast
  have b: "\<exists>h'. nearestNeighbor planar park_heap [] park_options = Inr (h', 2) \<and> empty_result h' 2"
    using small_dataset_is_not_rejected [of planar park_heap park_options 0] p sa
    unfolding park_options_def by blast
  have c: "\<exists>h'. nearestNeighbor planar park_heap [] None = Inr (h', 3) \<and> empty_result h' 3"
    using small_dataset_is_not_rejected [of planar park_heap None 0] n by simp
  have d: "nearestNeighbor planar park_heap [] (Some \<lparr> studyArea = BBoxArray [] \<rparr>) = Inl TypeError"
    using small_dataset_is_not_rejected
      [of planar park_heap "Some \<lparr> studyArea = BBoxArray [] \<rparr>" 0] array
    by blast
  show ?thesis
    using none a p b c d by blast
qed

text \<open>
  The claim as stated fails at the empty dataset with the park as study area: the call
  returns the polygon, and the attached fields are NaN, infinity, NaN, 0 and NaN.
\<close>

theorem empty_dataset_counterexample:
  "outcome (nearestNeighbor planar park_heap [] park_options) =
     Inr (2, Some (VAnalysis \<lparr> observedMeanDistance = NaN, expectedMeanDistance = PosInf,
                              nearestNeighborIndex = NaN, numberOfPoints = Fin 0, zScore = NaN \<rparr>))"
  by (simp add: run_defs park_heap_def park_options_def outcome_def analysis_of_def
      calculateNearestNeighborStatistics_def expectedMeanDistance_of_def popDensity_def variance_def)

section \<open>Study areas without area\<close>

lemma featureEach_push_area:
  "featureEach_push (lib\<lparr>area := f\<rparr>) h ds acc = featureEach_push lib h ds acc"
  by (induction ds arbitrary: h acc) simp_all

lemma attach_analysis_isl:
  "isl (attach_analysis lib1 h sa n1 obs1) = isl (attach_analysis lib2 h sa n2 obs2)"
  by (simp add: attach_analysis_def split: studyArea_value.splits option.splits)

lemma nearestNeighbor_area_isl:
  "isl (nearestNeighbor (lib\<lparr>area := f\<rparr>) h ds options) = isl (nearestNeighbor lib h ds options)"
proof -
  have r: "resolve_studyArea (lib\<lparr>area := f\<rparr>) h ds options = resolve_studyArea lib h ds options"
    by (auto simp: resolve_studyArea_def split_beta Let_def
        split: option.splits studyArea_value.splits)
  have d: "nearest_distance (lib\<lparr>area := f\<rparr>) = nearest_distance lib"
    by (simp add: fun_eq_iff nearest_distance_def cong: option.case_cong)
  show ?thesis
    using attach_analysis_isl [of "lib\<lparr>area := f\<rparr>" _ _ _ _ lib]
    by (simp add: nearestNeighbor_def r d featureEach_push_area split_beta Let_def
        split: sum.splits)
qed

lemma zero_area:
  assumes "1 \<le> n"
  shows "popDensity (Fin (real n)) (Fin 0) = PosInf"
    and "expectedMeanDistance_of (Fin (real n)) (Fin 0) = Fin 0"
    and "variance (Fin (real n)) (Fin 0) = Fin 0"
proof -
  show pd: "popDensity (Fin (real n)) (Fin 0) = PosInf"
    using assms by (simp add: popDensity_def inf_of_def)
  show "expectedMeanDistance_of (Fin (real n)) (Fin 0) = Fin 0"
    by (simp add: expectedMeanDistance_of_def pd js_mul_def js_div_def inf_of_def zero_of_def)
  show "variance (Fin (real n)) (Fin 0) = Fin 0"
    using assms by (simp add: variance_def pd js_mul_def js_div_def inf_of_def zero_of_def)
qed

lemma negative_area:
  assumes "1 \<le> n" "a < 0"
  shows "expectedMeanDistance_of (Fin (real n)) (Fin a) = NaN"
    and "variance (Fin (real n)) (Fin a) = NaN"
proof -
  have neg: "real n / a < 0"
    using assms by (simp add: divide_pos_neg)
  have pd: "popDensity (Fin (real n)) (Fin a) = Fin (real n / a)"
    using assms by (simp add: popDensity_def)
  show "expectedMeanDistance_of (Fin (real n)) (Fin a) = NaN"
    using neg by (simp add: expectedMeanDistance_of_def pd)
  have "real n * (real n / a) < 0"
    by (rule mult_pos_neg) (use assms neg in simp_all)
  moreover have "js_mul (Fin (real n)) (Fin (real n / a)) = Fin (real n * (real n / a))"
    using assms neg by simp
  ultimately show "variance (Fin (real n)) (Fin a) = NaN"
    by (simp only: variance_def pd js_sqrt.simps if_True js_NaN)
qed

text \<open>
  C6, as amended. The specification asks for a DegenerateStudyArea error when the computed
  area is zero or negative; \<^verbatim>\<open>index.js\<close> has no such check. Whether a call returns or
  raises does not depend on what \<^verbatim>\<open>area\<close> computes, and the division \<^verbatim>\<open>n / theArea\<close> is
  carried out on the area as it is. For \<open>n \<ge> 1\<close> features and a returning call: when the
  area is zero the population density is \<open>+Infinity\<close>, the expected mean distance is 0 and,
  for a positive observed mean distance, the index and the z-score are \<open>+Infinity\<close>; when
  the area is negative the expected mean distance, the index and the z-score are NaN.
\<close>

theorem degenerate_area_is_not_rejected:
  assumes run: "nearestNeighbor lib h dataset options = Inr (h', r)"
    and n: "1 \<le> length dataset"
    and ar: "area lib (geometry_at h' r) = Fin A" "A \<le> 0"
  shows "(\<forall>f. isl (nearestNeighbor (lib\<lparr>area := f\<rparr>) h dataset options) =
              isl (nearestNeighbor lib h dataset options)) \<and>
         (\<exists>a. analysis_of h' r = Some (VAnalysis a) \<and>
            numberOfPoints a = Fin (real (length dataset)) \<and>
            (A = 0 \<longrightarrow>
               popDensity (Fin (real (length dataset))) (js_mul (Fin A) (Fin (1 / 1000000))) = PosInf \<and>
               expectedMeanDistance a = Fin 0 \<and>
               (\<forall>obs. 0 < obs \<and> observedMeanDistance a = Fin obs \<longrightarrow>
                  nearestNeighborIndex a = PosInf \<and> zScore a = PosInf)) \<and>
            (A < 0 \<longrightarrow>
               expectedMeanDistance a = NaN \<and> nearestNeighborIndex a = NaN \<and> zScore a = NaN))"
proof -
  let ?n = "Fin (real (length dataset))"
  let ?t = "js_mul (Fin A) (Fin (1 / 1000000))"
  obtain obs where a: "analysis_of h' r =
      Some (VAnalysis (calculateNearestNeighborStatistics ?n obs ?t))"
    using nearestNeighbor_returns [OF run] ar(1) by auto
  let ?a = "calculateNearestNeighborStatistics ?n obs ?t"
  have c: "numberOfPoints ?a = ?n"
    by (simp add: calculateNearestNeighborStatistics_def)
  have zero: "popDensity ?n ?t = PosInf \<and> expectedMeanDistance ?a = Fin 0 \<and>
      (\<forall>x. 0 < x \<and> observedMeanDistance ?a = Fin x \<longrightarrow>
         nearestNeighborIndex ?a = PosInf \<and> zScore ?a = PosInf)"
    if "A = 0"
  proof -
    have t: "?t = Fin 0" using that by (simp add: zero_of_def)
    show ?thesis
      unfolding t
      by (simp add: calculateNearestNeighborStatistics_def zero_area [OF n] inf_of_def)
  qed
  have neg: "expectedMeanDistance ?a = NaN \<and> nearestNeighborIndex ?a = NaN \<and> zScore ?a = NaN"
    if "A < 0"
  proof -
    have t: "?t = Fin (A / 1000000)" using that by simp
    have "A / 1000000 < 0" using that by simp
    then show ?thesis
      unfolding t
      by (simp add: calculateNearestNeighborStatistics_def negative_area [OF n])
  qed
  show ?thesis
    using a c zero neg nearestNeighbor_area_isl [where lib = lib and h = h and ds = dataset and options = options]
    by blast
qed

text \<open>Two points on a vertical line with the default study area: the area is 0.\<close>

theorem degenerate_area_is_not_rejected_witness:
  "\<exists>h' a. nearestNeighbor planar (heap_of (Point (Fin 0, Fin 0)) vertical_points) [0, 1] None =
             Inr (h', 2) \<and>
           area planar (geometry_at h' 2) = Fin 0 \<and>
           analysis_of h' 2 = Some (VAnalysis a) \<and> observedMeanDistance a = Fin 1 \<and>
           numberOfPoints a = Fin 2 \<and> expectedMeanDistance a = Fin 0 \<and>
           nearestNeighborIndex a = PosInf \<and> zScore a = PosInf"
proof -
  obtain h' where run:
      "nearestNeighbor planar (heap_of (Point (Fin 0, Fin 0)) vertical_points) [0, 1] None =
         Inr (h', 2)"
    and ar: "area planar (geometry_at h' 2) = Fin 0"
    and ob: "\<exists>a. analysis_of h' 2 = Some (VAnalysis a) \<and> observedMeanDistance a = Fin 1"
    by (simp add: run_defs vertical_points_def analysis_of_def calculateNearestNeighborStatistics_def)
  have n: "1 \<le> length [0::nat, 1]" by simp
  have n2: "real (length [0::nat, 1]) = 2" by simp
  have A: "(0::real) \<le> 0" by simp
  show ?thesis
    using degenerate_area_is_not_rejected [OF run n ar A, unfolded n2] run ar ob by auto
qed

text \<open>
  The claim as stated fails at that input: the call returns, with an expected mean
  distance of 0 and an infinite index and z-score.
\<close>

theorem zero_area_counterexample:
  "outcome (nearestNeighbor planar (heap_of (Point (Fin 0, Fin 0)) vertical_points) [0, 1] None) =
     Inr (2, Some (VAnalysis \<lparr> observedMeanDistance = Fin 1, expectedMeanDistance = Fin 0,
                              nearestNeighborIndex = PosInf, numberOfPoints = Fin 2,
                              zScore = PosInf \<rparr>))"
  by (simp add: run_defs vertical_points_def outcome_def analysis_of_def js_mul_def js_div_def
      calculateNearestNeighborStatistics_def expectedMeanDistance_of_def popDensity_def variance_def)

section \<open>The planar library finds a nearest point\<close>

lemma js_lt_trans: "js_lt a b \<Longrightarrow> js_lt b c \<Longrightarrow> js_lt a c"
  by (cases a; cases b; cases c) (simp_all add: js_lt_def)

lemma js_lt_irrefl: "\<not> js_lt a a"
  by (cases a) (simp_all add: js_lt_def)

lemma js_lt_asym: "js_lt a b \<Longrightarrow> \<not> js_lt b a"
  by (cases a; cases b) (simp_all add: js_lt_def)

lemma js_lt_not_NaN: "js_lt a b \<Longrightarrow> a \<noteq> NaN \<and> b \<noteq> NaN"
  by (auto simp: js_lt_def)

lemma square_value: "distance_value (js_mul a a)"
  by (cases a) (auto simp: distance_value_def js_mul_def zero_of_def inf_of_def)

lemma add_value: "distance_value x \<Longrightarrow> distance_value y \<Longrightarrow> distance_value (js_add x y)"
  by (auto simp: distance_value_def js_add_def)

lemma sqrt_value: "distance_value x \<Longrightarrow> distance_value (js_sqrt x)"
  by (auto simp: distance_value_def)

lemma planar_distance_value: "distance_value (planar_distance p q)"
proof (cases "(p, q)" rule: planar_distance.cases)
  case (1 x1 y1 x2 y2)
  then show ?thesis
    using sqrt_value [OF add_value [OF square_value square_value]] by simp
qed (simp_all add: distance_value_def)

lemma nearest_scan_Some:
  assumes "nearest_scan t cs acc m = Some q"
  shows "(acc = Some q \<and> (\<forall>x\<in>set cs. \<not> js_lt (planar_distance t x) m)) \<or>
         (q \<in> set cs \<and> js_lt (planar_distance t q) m \<and>
          (\<forall>x\<in>set cs. \<not> js_lt (planar_distance t x) (planar_distance t q)))"
  using assms
proof (induction cs arbitrary: acc m)
  case Nil
  then show ?case by simp
next
  case (Cons pt pts)
  let ?d = "planar_distance t"
  show ?case
  proof (cases "js_lt (?d pt) m")
    case True
    then have "nearest_scan t pts (Some pt) (?d pt) = Some q"
      using Cons.prems by simp
    from Cons.IH [OF this]
    show ?thesis
    proof
      assume a: "Some pt = Some q \<and> (\<forall>x\<in>set pts. \<not> js_lt (?d x) (?d pt))"
      then show ?thesis using True js_lt_irrefl by auto
    next
      assume b: "q \<in> set pts \<and> js_lt (?d q) (?d pt) \<and> (\<forall>x\<in>set pts. \<not> js_lt (?d x) (?d q))"
      then have "js_lt (?d q) m" using True js_lt_trans by blast
      moreover have "\<not> js_lt (?d pt) (?d q)" using b js_lt_asym by blast
      ultimately show ?thesis using b by auto
    qed
  next
    case False
    then have "nearest_scan t pts acc m = Some q"
      using Cons.prems by simp
    from Cons.IH [OF this]
    show ?thesis
    proof
      assume "acc = Some q \<and> (\<forall>x\<in>set pts. \<not> js_lt (?d x) m)"
      then show ?thesis using False by auto
    next
      assume b: "q \<in> set pts \<and> js_lt (?d q) m \<and> (\<forall>x\<in>set pts. \<not> js_lt (?d x) (?d q))"
      have "\<not> js_lt (?d pt) (?d q)"
        using b False js_lt_trans by blast
      then show ?thesis using b by auto
    qed
  qed
qed

lemma nearest_scan_found:
  "(\<exists>x\<in>set cs. js_lt (planar_distance t x) m) \<or> acc \<noteq> None \<Longrightarrow>
     nearest_scan t cs acc m \<noteq> None"
proof (induction cs arbitrary: acc m)
  case Nil
  then show ?case by simp
next
  case (Cons pt pts)
  show ?case
  proof (cases "js_lt (planar_distance t pt) m")
    case True
    then show ?thesis using Cons.IH [of "planar_distance t pt" "Some pt"] by simp
  next
    case False
    then show ?thesis using Cons.prems Cons.IH [of m acc] by auto
  qed
qed

lemma planar_nearest:
  "nearestPoint planar p cs = Some q \<Longrightarrow>
     q \<in> set cs \<and> distance planar p q \<noteq> NaN \<and>
     (\<forall>x\<in>set cs. \<not> js_lt (distance planar p x) (distance planar p q))"
  using nearest_scan_Some [of p cs None PosInf q] js_lt_not_NaN
  by (auto simp: planar_def planar_nearestPoint_def)

lemma planar_found:
  "\<exists>x\<in>set cs. js_lt (distance planar p x) PosInf \<Longrightarrow> nearestPoint planar p cs \<noteq> None"
  using nearest_scan_found [of cs p PosInf None]
  by (simp add: planar_def planar_nearestPoint_def)

lemma planar_range:
  "distance planar p q = NaN \<or> distance planar p q = PosInf \<or> (\<exists>d\<ge>0. distance planar p q = Fin d)"
  using planar_distance_value [of p q]
  by (simp add: planar_def distance_value_def)

section \<open>Exclusion by identity\<close>

lemma nth_in_candidates:
  assumes "i < length cs" "j < length cs" "i \<noteq> j"
  shows "cs ! j \<in> set (candidates cs i)"
proof (cases "j < i")
  case True
  then have "take i cs ! j = cs ! j" "j < length (take i cs)"
    using assms by simp_all
  then have "cs ! j \<in> set (take i cs)"
    by (metis nth_mem)
  then show ?thesis by (simp add: candidates_def)
next
  case False
  then have ji: "Suc i \<le> j" using assms by simp
  then have "drop (Suc i) cs ! (j - Suc i) = cs ! j" "j - Suc i < length (drop (Suc i) cs)"
    using assms by simp_all
  then have "cs ! j \<in> set (drop (Suc i) cs)"
    by (metis nth_mem)
  then show ?thesis by (simp add: candidates_def)
qed

lemma twin_distance_zero:
  assumes nearest: "\<forall>p cs q. nearestPoint lib p cs = Some q \<longrightarrow>
        q \<in> set cs \<and> distance lib p q \<noteq> NaN \<and>
        (\<forall>x\<in>set cs. \<not> js_lt (distance lib p x) (distance lib p q))"
    and found: "\<forall>p cs. (\<exists>x\<in>set cs. js_lt (distance lib p x) PosInf) \<longrightarrow> nearestPoint lib p cs \<noteq> None"
    and range: "\<forall>p q. distance lib p q = NaN \<or> distance lib p q = PosInf \<or>
        (\<exists>d\<ge>0. distance lib p q = Fin d)"
    and ij: "i < length cs" "j < length cs" "i \<noteq> j"
    and twin: "cs ! j = cs ! i"
    and zero: "distance lib (cs ! i) (cs ! i) = Fin 0"
  shows "distance_at lib cs i = Inr (Fin 0)"
proof -
  let ?c = "cs ! i"
  have mem: "?c \<in> set (candidates cs i)"
    using nth_in_candidates [OF ij] twin by simp
  have "js_lt (distance lib ?c ?c) PosInf"
    by (simp add: zero js_lt_def)
  then have "\<exists>x\<in>set (candidates cs i). js_lt (distance lib ?c x) PosInf"
    using mem by (rule_tac x = ?c in bexI)
  then have "nearestPoint lib ?c (candidates cs i) \<noteq> None"
    using found [rule_format, of "candidates cs i" ?c] by simp
  then obtain q where q: "nearestPoint lib ?c (candidates cs i) = Some q"
    by (cases "nearestPoint lib ?c (candidates cs i)") simp_all
  note n = nearest [rule_format, OF q]
  have nn: "distance lib ?c q \<noteq> NaN"
    using n by simp
  have "\<not> js_lt (distance lib ?c ?c) (distance lib ?c q)"
    using n mem by simp
  then have le: "\<not> js_lt (Fin 0) (distance lib ?c q)"
    by (simp add: zero)
  have "distance lib ?c q = Fin 0"
    using range [rule_format, of ?c q] nn le by (auto simp: js_lt_def)
  then show ?thesis
    by (simp add: distance_at_def q)
qed

lemma js_add_not_NegZero: "x \<noteq> NegZero \<Longrightarrow> js_add x y \<noteq> NegZero"
  by (cases x; cases y) (simp_all add: js_add_def)

lemma foldl_js_add_not_NegZero: "acc \<noteq> NegZero \<Longrightarrow> foldl js_add acc vs \<noteq> NegZero"
  by (induction vs arbitrary: acc) (simp_all add: js_add_not_NegZero)

lemma js_add_zero: "s \<noteq> NegZero \<Longrightarrow> js_add s (Fin 0) = s"
  by (cases s) (simp_all add: js_add_def)

lemma planar_contract: "nearest_contract planar"
  unfolding nearest_contract_def
  using planar_nearest planar_found planar_range by blast

lemma centroid_objects:
  assumes "list_all (\<lambda>f. f < next_ref h) ds"
  shows "map (geometry_at (heap_before lib h ds options))
           [next_ref (fst (resolve_studyArea lib h ds options))..<
            next_ref (fst (resolve_studyArea lib h ds options)) + length ds] =
         centroids_of lib h ds"
proof -
  let ?h1 = "fst (resolve_studyArea lib h ds options)"
  let ?h2 = "heap_before lib h ds options"
  let ?k = "next_ref ?h1"
  let ?n = "length ds"
  have all1: "list_all (\<lambda>f. f < ?k) ds"
    using assms resolve_next [of h lib ds options] by (auto simp: list_all_iff)
  show ?thesis
  proof (rule nth_equalityI)
    show "length (map (geometry_at ?h2) [?k..<?k + ?n]) = length (centroids_of lib h ds)"
      by (simp add: centroids_of_def)
  next
    fix i assume "i < length (map (geometry_at ?h2) [?k..<?k + ?n])"
    then have i: "i < ?n" by simp
    have "ds ! i < next_ref h" using assms i by (simp add: list_all_iff)
    then have "geometry_at ?h1 (ds ! i) = geometry_at h (ds ! i)"
      using resolve_old [of "ds ! i" h lib ds options] by (simp add: geometry_at_def)
    then show "map (geometry_at ?h2) [?k..<?k + ?n] ! i = centroids_of lib h ds ! i"
      using i featureEach_push_new [OF all1 i, of lib "[]"]
      by (simp add: centroids_of_def geometry_at_def heap_before_def)
  qed
qed

lemma distances_nth:
  assumes "distances lib cs = Inr vals" "i < length cs"
  shows "distance_at lib cs i = Inr (vals ! i)" and "length vals = length cs"
proof -
  show "distance_at lib cs i = Inr (vals ! i)"
    using map_raising_nth [OF assms(1) [unfolded distances_def], of i] assms(2) by simp
  show "length vals = length cs"
    using map_raising_length [OF assms(1) [unfolded distances_def]] by simp
qed

lemma zero_entry_keeps_sum:
  assumes "i < length vals" "vals ! i = Fin 0"
  shows "foldl js_add (Fin 0) (take (Suc i) vals) = foldl js_add (Fin 0) (take i vals)"
proof -
  have "take (Suc i) vals = take i vals @ [Fin 0]"
    using assms by (simp add: take_Suc_conv_app_nth)
  then show ?thesis
    using js_add_zero [OF foldl_js_add_not_NegZero, of "Fin 0" "take i vals"] by simp
qed

text \<open>
  C8. Each point is excluded from its own candidates by the identity of its object and by
  nothing else. For every library: the centroid objects of line 37 are pairwise different
  objects; the candidates handed to \<^verbatim>\<open>nearestPoint\<close> for the object at position \<open>i\<close> are
  the geometries of all the centroids but the one at position \<open>i\<close>, in order, so the value
  of the callback is \<open>distance_at\<close> at \<open>i\<close>; \<open>nearestNeighbor\<close> as a whole is the search
  over these candidates followed by the attachment of the statistics for the sum of the
  values, from 0, divided by \<open>n\<close>, which is the observed mean distance of every returning
  call. For two different features \<open>i\<close> and \<open>j\<close> whose centroids have the same geometry,
  the two objects are different, \<open>j\<close> is among the candidates of \<open>i\<close> and \<open>i\<close> is not among
  its own. With a library that meets the contract of a nearest-point search, and for which
  the shared centroid is at distance 0 from itself, the nearest-neighbour distance of both
  is 0, both entries of the mapped array are 0, and adding entry \<open>i\<close> leaves the running
  sum as it was.
\<close>

theorem candidates_are_all_other_objects:
  assumes alloc: "list_all (\<lambda>f. f < next_ref h) dataset"
    and cs: "cs = map (\<lambda>f. centroid lib (geometry_at h f)) dataset"
    and rs: "resolve_studyArea lib h dataset options = (h1, sa)"
    and fe: "featureEach_push lib h1 dataset [] = (h2, features)"
    and n: "n = Fin (real (length dataset))"
  shows "distinct features \<and> length features = length dataset \<and>
         map (geometry_at h2) features = cs \<and>
         (\<forall>i<length dataset.
            map (geometry_at h2) (theOtherFeatures features (features ! i)) =
              take i cs @ drop (Suc i) cs \<and>
            nearest_distance lib h2 features (features ! i) = distance_at lib cs i) \<and>
         nearestNeighbor lib h dataset options =
           (case distances lib cs of
              Inl e \<Rightarrow> Inl e
            | Inr vals \<Rightarrow> attach_analysis lib h2 sa n (js_div (foldl js_add (Fin 0) vals) n)) \<and>
         (\<forall>h' r. nearestNeighbor lib h dataset options = Inr (h', r) \<longrightarrow>
            (\<exists>vals a. distances lib cs = Inr vals \<and> length vals = length dataset \<and>
               analysis_of h' r = Some (VAnalysis a) \<and>
               observedMeanDistance a = js_div (foldl js_add (Fin 0) vals) n)) \<and>
         (\<forall>i j. i < length dataset \<and> j < length dataset \<and> i \<noteq> j \<and> cs ! i = cs ! j \<longrightarrow>
            features ! i \<noteq> features ! j \<and>
            features ! j \<in> set (theOtherFeatures features (features ! i)) \<and>
            features ! i \<notin> set (theOtherFeatures features (features ! i)) \<and>
            cs ! j \<in> set (take i cs @ drop (Suc i) cs) \<and>
            (nearest_contract lib \<and> distance lib (cs ! i) (cs ! i) = Fin 0 \<longrightarrow>
               nearest_distance lib h2 features (features ! i) = Inr (Fin 0) \<and>
               nearest_distance lib h2 features (features ! j) = Inr (Fin 0) \<and>
               (\<forall>vals. distances lib cs = Inr vals \<longrightarrow>
                  vals ! i = Fin 0 \<and> vals ! j = Fin 0 \<and>
                  foldl js_add (Fin 0) (take (Suc i) vals) =
                    foldl js_add (Fin 0) (take i vals))))"
proof -
  let ?k = "next_ref h1"
  let ?m = "length dataset"
  have h1: "h1 = fst (resolve_studyArea lib h dataset options)"
    and sa: "sa = snd (resolve_studyArea lib h dataset options)"
    using rs by simp_all
  have h2: "h2 = heap_before lib h dataset options"
    using fe by (simp add: heap_before_def h1)
  have fs: "features = [?k..<?k + ?m]"
    using featureEach_push_snd [of lib h1 dataset "[]"] fe by simp
  have cs': "cs = centroids_of lib h dataset"
    by (simp add: cs centroids_of_def)
  have lcs: "length cs = ?m"
    by (simp add: cs)
  have geo: "map (geometry_at h2) features = cs"
    unfolding fs h2 cs' h1 by (rule centroid_objects [OF alloc])
  have basic: "distinct features \<and> length features = ?m"
    by (simp add: fs)
  have nth: "features ! i = ?k + i" if "i < ?m" for i
    using that by (simp add: fs)
  have others: "theOtherFeatures features (features ! i) = [?k..<?k + i] @ [Suc (?k + i)..<?k + ?m]"
    if "i < ?m" for i
  proof -
    have "theOtherFeatures features (?k + i) = [?k..<?k + i] @ [Suc (?k + i)..<?k + ?m]"
      unfolding fs by (rule theOtherFeatures_upt [OF that])
    then show ?thesis by (simp only: nth [OF that])
  qed
  have per: "map (geometry_at h2) (theOtherFeatures features (features ! i)) =
              take i cs @ drop (Suc i) cs \<and>
            nearest_distance lib h2 features (features ! i) = distance_at lib cs i"
    if i: "i < ?m" for i
  proof -
    have "map (geometry_at h2) ([?k..<?k + i] @ [Suc (?k + i)..<?k + ?m]) =
        candidates (map (geometry_at h2) features) i"
      unfolding fs by (rule candidates_map_upt [OF i])
    then have "map (geometry_at h2) (theOtherFeatures features (features ! i)) =
        candidates (map (geometry_at h2) features) i"
      unfolding others [OF i] .
    then have a: "map (geometry_at h2) (theOtherFeatures features (features ! i)) =
        take i cs @ drop (Suc i) cs"
      by (simp only: geo candidates_def)
    have "nearest_distance lib h2 features (?k + i) =
        distance_at lib (map (geometry_at h2) features) i"
      unfolding fs by (rule nearest_distance_upt [OF i])
    then have "nearest_distance lib h2 features (features ! i) = distance_at lib cs i"
      by (simp only: nth [OF i] geo)
    then show ?thesis using a by simp
  qed
  have eq: "nearestNeighbor lib h dataset options =
           (case distances lib cs of
              Inl e \<Rightarrow> Inl e
            | Inr vals \<Rightarrow> attach_analysis lib h2 sa n (js_div (foldl js_add (Fin 0) vals) n))"
    unfolding nearestNeighbor_eq [OF alloc] cs' h2 sa n mean_of_def by (rule refl)
  have ret: "\<exists>vals a. distances lib cs = Inr vals \<and> length vals = ?m \<and>
               analysis_of h' r = Some (VAnalysis a) \<and>
               observedMeanDistance a = js_div (foldl js_add (Fin 0) vals) n"
    if run: "nearestNeighbor lib h dataset options = Inr (h', r)" for h' r
  proof -
    obtain vals where d: "distances lib cs = Inr vals"
      and at: "attach_analysis lib h2 sa n (js_div (foldl js_add (Fin 0) vals) n) = Inr (h', r)"
      using run unfolding eq by (auto split: sum.splits)
    obtain p where "properties (feature_at h2 r) = Some p"
      and "h' = attach h2 p (calculateNearestNeighborStatistics n (js_div (foldl js_add (Fin 0) vals) n)
                             (js_mul (area lib (geometry_at h2 r)) (Fin (1 / 1000000))))"
      using attach_analysis_Inr [OF at] by blast
    then have "analysis_of h' r = Some (VAnalysis (calculateNearestNeighborStatistics n
        (js_div (foldl js_add (Fin 0) vals) n)
        (js_mul (area lib (geometry_at h2 r)) (Fin (1 / 1000000)))))"
      using analysis_of_attach by blast
    moreover have "length vals = ?m"
      using map_raising_length [OF d [unfolded distances_def]] lcs by simp
    ultimately show ?thesis
      using d by (auto simp: calculateNearestNeighborStatistics_def)
  qed
  have twins: "features ! i \<noteq> features ! j \<and>
            features ! j \<in> set (theOtherFeatures features (features ! i)) \<and>
            features ! i \<notin> set (theOtherFeatures features (features ! i)) \<and>
            cs ! j \<in> set (take i cs @ drop (Suc i) cs) \<and>
            (nearest_contract lib \<and> distance lib (cs ! i) (cs ! i) = Fin 0 \<longrightarrow>
               nearest_distance lib h2 features (features ! i) = Inr (Fin 0) \<and>
               nearest_distance lib h2 features (features ! j) = Inr (Fin 0) \<and>
               (\<forall>vals. distances lib cs = Inr vals \<longrightarrow>
                  vals ! i = Fin 0 \<and> vals ! j = Fin 0 \<and>
                  foldl js_add (Fin 0) (take (Suc i) vals) =
                    foldl js_add (Fin 0) (take i vals)))"
    if i: "i < ?m" and j: "j < ?m" and ij: "i \<noteq> j" and tw: "cs ! i = cs ! j" for i j
  proof -
    have ne: "features ! i \<noteq> features ! j"
      using ij by (simp add: nth [OF i] nth [OF j])
    have "features ! j \<in> set features"
      using j basic by simp
    then have mem: "features ! j \<in> set (theOtherFeatures features (features ! i))"
      using ne by (simp add: theOtherFeatures_def)
    have self: "features ! i \<notin> set (theOtherFeatures features (features ! i))"
      by (simp add: theOtherFeatures_def)
    have cand: "cs ! j \<in> set (take i cs @ drop (Suc i) cs)"
      using nth_in_candidates [of i cs j] i j ij lcs by (simp add: candidates_def)
    have zero: "nearest_distance lib h2 features (features ! i) = Inr (Fin 0) \<and>
               nearest_distance lib h2 features (features ! j) = Inr (Fin 0) \<and>
               (\<forall>vals. distances lib cs = Inr vals \<longrightarrow>
                  vals ! i = Fin 0 \<and> vals ! j = Fin 0 \<and>
                  foldl js_add (Fin 0) (take (Suc i) vals) =
                    foldl js_add (Fin 0) (take i vals))"
      if c: "nearest_contract lib" and z: "distance lib (cs ! i) (cs ! i) = Fin 0"
    proof -
      note c1 = c [unfolded nearest_contract_def, THEN conjunct1]
      note c2 = c [unfolded nearest_contract_def, THEN conjunct2, THEN conjunct1]
      note c3 = c [unfolded nearest_contract_def, THEN conjunct2, THEN conjunct2]
      have i': "i < length cs" and j': "j < length cs"
        using i j lcs by simp_all
      have z': "distance lib (cs ! j) (cs ! j) = Fin 0"
        using z tw by simp
      have di: "distance_at lib cs i = Inr (Fin 0)"
        by (rule twin_distance_zero [OF c1 c2 c3 i' j' ij tw [symmetric] z])
      have dj: "distance_at lib cs j = Inr (Fin 0)"
        by (rule twin_distance_zero [OF c1 c2 c3 j' i' ij [symmetric] tw z'])
      have v: "vals ! i = Fin 0 \<and> vals ! j = Fin 0 \<and>
              foldl js_add (Fin 0) (take (Suc i) vals) = foldl js_add (Fin 0) (take i vals)"
        if d: "distances lib cs = Inr vals" for vals
      proof -
        have vi: "vals ! i = Fin 0"
          using distances_nth(1) [OF d i'] di by simp
        have vj: "vals ! j = Fin 0"
          using distances_nth(1) [OF d j'] dj by simp
        have "i < length vals"
          using distances_nth(2) [OF d i'] i' by simp
        then show ?thesis
          using vi vj zero_entry_keeps_sum by blast
      qed
      show ?thesis
        using per [OF i] per [OF j] di dj v by simp
    qed
    show ?thesis
      using ne mem self cand zero by blast
  qed
  show ?thesis
    using basic geo per eq ret twins by blast
qed

text \<open>
  With the planar library, at three points of which the first two coincide, and the
  default study area: the centroid objects are 4, 5 and 6, the candidates of object 4 are
  objects 5 and 6, of which the first has the coordinates of 4; the distances are 0, 0
  and 5 and the observed mean distance is \<open>5 / 3\<close>.
\<close>

theorem candidates_are_all_other_objects_witness:
  "nearest_contract planar \<and>
   twin_points ! 0 = twin_points ! 1 \<and>
   distances planar twin_points = Inr [Fin 0, Fin 0, Fin 5] \<and>
   snd (featureEach_push planar
          (fst (resolve_studyArea planar (heap_of (Point (Fin 0, Fin 0)) twin_points) [0, 1, 2] None))
          [0, 1, 2] []) = [4, 5, 6] \<and>
   theOtherFeatures [4, 5, 6] 4 = [5, 6] \<and>
   nearest_distance planar
     (fst (featureEach_push planar
        (fst (resolve_studyArea planar (heap_of (Point (Fin 0, Fin 0)) twin_points) [0, 1, 2] None))
        [0, 1, 2] [])) [4, 5, 6] 4 = Inr (Fin 0) \<and>
   nearest_distance planar
     (fst (featureEach_push planar
        (fst (resolve_studyArea planar (heap_of (Point (Fin 0, Fin 0)) twin_points) [0, 1, 2] None))
        [0, 1, 2] [])) [4, 5, 6] 5 = Inr (Fin 0) \<and>
   take 0 twin_points @ drop (Suc 0) twin_points = [Point (Fin 0, Fin 0), Point (Fin 3, Fin 4)] \<and>
   (\<exists>h' a. nearestNeighbor planar (heap_of (Point (Fin 0, Fin 0)) twin_points) [0, 1, 2] None =
             Inr (h', 3) \<and>
           analysis_of h' 3 = Some (VAnalysis a) \<and>
           observedMeanDistance a = Fin (5 / 3))"
proof -
  let ?h = "heap_of (Point (Fin 0, Fin 0)) twin_points"
  let ?R = "resolve_studyArea planar ?h [0, 1, 2] None"
  let ?F = "featureEach_push planar (fst ?R) [0, 1, 2] []"
  have alloc: "list_all (\<lambda>f. f < next_ref ?h) [0, 1, 2]"
    by (simp add: heap_of_def twin_points_def)
  have cs: "twin_points = map (\<lambda>f. centroid planar (geometry_at ?h f)) [0, 1, 2]"
    by (simp add: heap_of_def twin_points_def geometry_at_def planar_def planar_centroid_def
        zero_of_def Let_def)
  have rs: "?R = (fst ?R, snd ?R)" and fe: "?F = (fst ?F, snd ?F)"
    by simp_all
  have n: "Fin 3 = Fin (real (length [0::nat, 1, 2]))"
    by simp
  note t = candidates_are_all_other_objects [OF alloc cs rs fe n]
  have fs: "snd ?F = [4, 5, 6]"
    by (simp add: resolve_studyArea_def heap_of_def twin_points_def new_feature_def Let_def)
  have tw: "twin_points ! 0 = twin_points ! 1"
    by (simp add: twin_points_def)
  have z: "distance planar (twin_points ! 0) (twin_points ! 0) = Fin 0"
    by (simp add: twin_points_def planar_def zero_of_def)
  note ret = t [THEN conjunct2, THEN conjunct2, THEN conjunct2, THEN conjunct2, THEN conjunct2,
      THEN conjunct1, rule_format]
  note twins = t [THEN conjunct2, THEN conjunct2, THEN conjunct2, THEN conjunct2, THEN conjunct2,
      THEN conjunct2, rule_format, of 0 1]
  have pre: "(0::nat) < length [0::nat, 1, 2] \<and> (1::nat) < length [0::nat, 1, 2] \<and> (0::nat) \<noteq> 1 \<and>
      twin_points ! 0 = twin_points ! 1"
    using tw by simp
  note zero = twins [OF pre, THEN conjunct2, THEN conjunct2, THEN conjunct2, THEN conjunct2,
      rule_format, OF conjI [OF planar_contract z]]
  have nd: "nearest_distance planar (fst ?F) (snd ?F) (snd ?F ! 0) = Inr (Fin 0)"
    "nearest_distance planar (fst ?F) (snd ?F) (snd ?F ! 1) = Inr (Fin 0)"
    using zero by simp_all
  have ds: "distances planar twin_points = Inr [Fin 0, Fin 0, Fin 5]"
    by (simp add: distances_def distance_at_def candidates_def twin_points_def planar_def
        planar_nearestPoint_def zero_of_def upt_conv_Cons)
  obtain h' where run: "nearestNeighbor planar ?h [0, 1, 2] None = Inr (h', 3)"
    by (simp add: run_defs twin_points_def)
  obtain vals a where v: "distances planar twin_points = Inr vals"
    and a: "analysis_of h' 3 = Some (VAnalysis a)"
    and m: "observedMeanDistance a = js_div (foldl js_add (Fin 0) vals) (Fin 3)"
    using ret [OF run] by blast
  have "vals = [Fin 0, Fin 0, Fin 5]"
    using v ds by simp
  then have o: "observedMeanDistance a = Fin (5 / 3)"
    using m by simp
  have other: "theOtherFeatures [4, 5, 6] 4 = [5, 6::nat]"
    by (simp add: theOtherFeatures_def)
  have c: "take 0 twin_points @ drop (Suc 0) twin_points = [Point (Fin 0, Fin 0), Point (Fin 3, Fin 4)]"
    by (simp add: twin_points_def)
  show ?thesis
    using planar_contract tw ds fs other c run a o nd [unfolded fs] by simp
qed

section \<open>The worked example\<close>

lemma all_less_4: "(\<forall>i<4::nat. P i) \<longleftrightarrow> P 0 \<and> P 1 \<and> P 2 \<and> P 3"
proof -
  have "i < 4 \<longleftrightarrow> i = 0 \<or> i = 1 \<or> i = 2 \<or> i = 3" for i :: nat
    by arith
  then show ?thesis by auto
qed

lemma map_raising_all:
  "(\<And>x. x \<in> set xs \<Longrightarrow> f x = Inr (g x)) \<Longrightarrow> map_raising f xs = Inr (map g xs)"
  by (induction xs) simp_all

text \<open>
  C4. The worked example of the specification: four features, each at distance 1 from its
  nearest neighbour, and the default study area, the polygon of their bounding box, of
  area 1 in the unit of the distances squared; \<^verbatim>\<open>area\<close> returns square metres, so that is
  1000000. The call returns the new polygon with \<^verbatim>\<open>observedMeanDistance = 1\<close>,
  \<^verbatim>\<open>expectedMeanDistance = 0.25\<close>, \<^verbatim>\<open>nearestNeighborIndex = 4\<close> and \<^verbatim>\<open>numberOfPoints = 4\<close>; the
  population density computed on the way is 4. The statement is for every library for
  which the nearest-neighbour distances and the area are those of the example.
\<close>

theorem unit_square_example:
  assumes alloc: "list_all (\<lambda>f. f < next_ref h) dataset"
    and four: "length dataset = 4"
    and near: "\<forall>i<4. \<exists>q. nearestPoint lib (centroids_of lib h dataset ! i)
                     (candidates (centroids_of lib h dataset) i) = Some q \<and>
                   distance lib (centroids_of lib h dataset ! i) q = Fin 1"
    and ar: "area lib (bboxPolygon lib (bbox lib (map (geometry_at h) dataset))) = Fin 1000000"
  shows "outcome (nearestNeighbor lib h dataset None) =
           Inr (next_ref h,
                Some (VAnalysis \<lparr> observedMeanDistance = Fin 1, expectedMeanDistance = Fin 0.25,
                                  nearestNeighborIndex = Fin 4, numberOfPoints = Fin 4,
                                  zScore = Fin (12500 / 1089) \<rparr>)) \<and>
         popDensity (Fin 4) (js_mul (Fin 1000000) (Fin (1 / 1000000))) = Fin 4"
proof -
  let ?cs = "centroids_of lib h dataset"
  have len: "length ?cs = 4"
    using four by (simp add: centroids_of_def)
  have "distance_at lib ?cs i = Inr (Fin 1)" if "i \<in> set [0..<4]" for i
    using near that by (auto simp: distance_at_def)
  then have "distances lib ?cs = Inr (map (\<lambda>i. Fin 1) [0..<4])"
    unfolding distances_def len by (rule map_raising_all)
  moreover have "[0..<4] = [0, 1, 2, 3::nat]"
    by (simp add: upt_conv_Cons)
  ultimately have d: "distances lib ?cs = Inr [Fin 1, Fin 1, Fin 1, Fin 1]"
    by simp
  have alloc': "allocated_input h dataset None"
    using alloc by (simp add: allocated_input_def)
  have a: "analysis_on lib h dataset None =
      Inr (calculateNearestNeighborStatistics (Fin 4) (Fin 1) (Fin 1))"
    by (simp add: analysis_on_def d study_geometry_def ar four mean_of_def)
  have c: "calculateNearestNeighborStatistics (Fin 4) (Fin 1) (Fin 1) =
      \<lparr> observedMeanDistance = Fin 1, expectedMeanDistance = Fin 0.25,
        nearestNeighborIndex = Fin 4, numberOfPoints = Fin 4, zScore = Fin (12500 / 1089) \<rparr>"
    by (simp add: calculateNearestNeighborStatistics_def expectedMeanDistance_of_def
        popDensity_def variance_def)
  show ?thesis
    by (simp add: nearestNeighbor_outcome [OF alloc'] a c study_ref_def popDensity_def)
qed

text \<open>
  With the planar library, at the points \<open>(0, 0)\<close>, \<open>(0, 1)\<close>, \<open>(1, 0)\<close> and \<open>(1, 1)\<close>: the
  study area is the unit square, its area is 1000000 square metres, and the outcome is the
  one of the example.
\<close>

theorem unit_square_example_witness:
  "outcome (nearestNeighbor planar (heap_of (Point (Fin 0, Fin 0)) unit_square_points) [0, 1, 2, 3] None) =
     Inr (4, Some (VAnalysis \<lparr> observedMeanDistance = Fin 1, expectedMeanDistance = Fin 0.25,
                              nearestNeighborIndex = Fin 4, numberOfPoints = Fin 4,
                              zScore = Fin (12500 / 1089) \<rparr>)) \<and>
   bboxPolygon planar (bbox planar unit_square_points) =
     Polygon [[(Fin 0, Fin 0), (Fin 1, Fin 0), (Fin 1, Fin 1), (Fin 0, Fin 1), (Fin 0, Fin 0)]] \<and>
   area planar (bboxPolygon planar (bbox planar unit_square_points)) = Fin 1000000 \<and>
   popDensity (Fin 4) (js_mul (Fin 1000000) (Fin (1 / 1000000))) = Fin 4"
proof -
  let ?h = "heap_of (Point (Fin 0, Fin 0)) unit_square_points"
  have alloc: "list_all (\<lambda>f. f < next_ref ?h) [0, 1, 2, 3]"
    by (simp add: heap_of_def unit_square_points_def)
  have four: "length [0::nat, 1, 2, 3] = 4" by simp
  have g: "map (geometry_at ?h) [0, 1, 2, 3] = unit_square_points"
    by (simp add: heap_of_def unit_square_points_def geometry_at_def)
  have cs: "centroids_of planar ?h [0, 1, 2, 3] = unit_square_points"
    by (simp add: centroids_of_def heap_of_def unit_square_points_def geometry_at_def planar_def
        planar_centroid_def zero_of_def Let_def)
  have near: "\<forall>i<4. \<exists>q. nearestPoint planar (centroids_of planar ?h [0, 1, 2, 3] ! i)
                     (candidates (centroids_of planar ?h [0, 1, 2, 3]) i) = Some q \<and>
                   distance planar (centroids_of planar ?h [0, 1, 2, 3] ! i) q = Fin 1"
    unfolding cs
    by (simp add: all_less_4 unit_square_points_def candidates_def planar_def
        planar_nearestPoint_def zero_of_def)
  have poly: "bboxPolygon planar (bbox planar unit_square_points) =
     Polygon [[(Fin 0, Fin 0), (Fin 1, Fin 0), (Fin 1, Fin 1), (Fin 0, Fin 1), (Fin 0, Fin 0)]]"
    by (simp add: planar_def planar_bbox_def planar_bboxPolygon_def number_at_def Let_def
        unit_square_points_def)
  have ar0: "area planar (bboxPolygon planar (bbox planar unit_square_points)) = Fin 1000000"
    unfolding poly by (simp add: planar_def zero_of_def)
  have ar: "area planar (bboxPolygon planar (bbox planar (map (geometry_at ?h) [0, 1, 2, 3]))) =
      Fin 1000000"
    unfolding g by (rule ar0)
  have n: "next_ref ?h = 4"
    by (simp add: heap_of_def unit_square_points_def)
  show ?thesis
    using unit_square_example [OF alloc four near ar] poly ar0
    by (simp add: n)
qed

end
